theory Spec2Isabelle
  imports Main "HOL-Library.Sublist" "HOL-Library.List_Lexorder" "HOL-Library.Char_ord"
begin

section \<open>Strings\<close>

text \<open>
  The generator is modelled with Python 3 strings: a string is a list of code points, here
  the code points below 256 (\<^typ>\<open>char\<close>).  \<open>convertToUnicode\<close> returns such a string as it is.
\<close>

definition convertToUnicode :: "string \<Rightarrow> string" where
  "convertToUnicode obj = obj"

text \<open>\<open>sanitize_package_name\<close>: \<^verbatim>\<open>name.replace('_', '-')\<close>.\<close>

definition sanitize_package_name :: "string \<Rightarrow> string" where
  "sanitize_package_name name = map (\<lambda>c. if c = CHR ''_'' then CHR ''-'' else c) name"

text \<open>
  Whitespace as \<^verbatim>\<open>\s\<close> and \<^verbatim>\<open>str.strip()\<close> see it on Python 3 strings, for the code points
  below 256: TAB, LF, VT, FF, CR, the separators 0x1C to 0x1F, the space, NEL and the
  no-break space.
\<close>

definition isspace :: "char \<Rightarrow> bool" where
  "isspace c \<longleftrightarrow> c \<in> set [CHR 0x09, CHR 0x0A, CHR 0x0B, CHR 0x0C, CHR 0x0D,
     CHR 0x1C, CHR 0x1D, CHR 0x1E, CHR 0x1F, CHR 0x20, CHR 0x85, CHR 0xA0]"

definition strip :: "string \<Rightarrow> string" where
  "strip s = rev (dropWhile isspace (rev (dropWhile isspace s)))"

text \<open>
  The pattern \<^verbatim>\<open><.*?>\<close> at a \<^verbatim>\<open><\<close>: the lazy \<^verbatim>\<open>.*?\<close> stops at the first \<^verbatim>\<open>>\<close>, and \<^verbatim>\<open>.\<close> does
  not match a line feed, so the match fails when a line feed (or the end of the string)
  comes before any \<^verbatim>\<open>>\<close>.  \<open>tag_end\<close> gives the text after the match.
\<close>

fun tag_end :: "string \<Rightarrow> string option" where
  "tag_end [] = None"
| "tag_end (c # cs) =
     (if c = CHR ''>'' then Some cs
      else if c = CHR 0x0A then None
      else tag_end cs)"

lemma tag_end_length [termination_simp]: "tag_end cs = Some r \<Longrightarrow> length r < Suc (length cs)"
  by (induction cs) (auto split: if_splits)

text \<open>\<^verbatim>\<open>markup_remover.sub('', value)\<close>: every match, left to right, is removed.\<close>

fun markup_remover_sub :: "string \<Rightarrow> string" where
  "markup_remover_sub [] = []"
| "markup_remover_sub (c # cs) =
     (if c = CHR ''<'' then
        (case tag_end cs of
           Some r \<Rightarrow> markup_remover_sub r
         | None \<Rightarrow> c # markup_remover_sub cs)
      else c # markup_remover_sub cs)"

lemma dropWhile_length [termination_simp]: "length (dropWhile P cs) < Suc (length cs)"
  by (simp add: le_imp_less_Suc length_dropWhile_le)

text \<open>\<^verbatim>\<open>re.sub('\s+', ' ', value)\<close>: every maximal run of whitespace becomes one space.\<close>

fun collapse_whitespace :: "string \<Rightarrow> string" where
  "collapse_whitespace [] = []"
| "collapse_whitespace (c # cs) =
     (if isspace c then CHR '' '' # collapse_whitespace (dropWhile isspace cs)
      else c # collapse_whitespace cs)"

definition debianize_string :: "string \<Rightarrow> string" where
  "debianize_string value0 =
     (let value1 = markup_remover_sub value0;
          value2 = collapse_whitespace value1;
          value3 = strip value2
      in value3)"

text \<open>
  \<^verbatim>\<open>value.split('. ', 1)\<close>: \<open>None\<close> when the separator does not occur (one part), else the
  text before its first occurrence and the text after it (two parts).
\<close>

fun split_dot_space :: "string \<Rightarrow> (string \<times> string) option" where
  "split_dot_space (a # b # cs) =
     (if a = CHR ''.'' \<and> b = CHR '' '' then Some ([], cs)
      else (case split_dot_space (b # cs) of
              None \<Rightarrow> None
            | Some (p, q) \<Rightarrow> Some (a # p, q)))"
| "split_dot_space _ = None"

definition format_description :: "string \<Rightarrow> string" where
  "format_description value0 =
     (let value1 = debianize_string value0 in
      case split_dot_space value1 of
        None \<Rightarrow> value1
      | Some (p0, p1) \<Rightarrow>
          if length p1 = 0 then value1
          else p0 @ [CHR ''.'', CHR 0x0A, CHR '' ''] @ strip p1)"

text \<open>\<^verbatim>\<open>sep.join(xs)\<close>, and a string seen as the sequence of its characters.\<close>

fun join :: "string \<Rightarrow> string list \<Rightarrow> string" where
  "join sep [] = []"
| "join sep [x] = x"
| "join sep (x # y # ys) = x @ sep @ join sep (y # ys)"

definition chars :: "string \<Rightarrow> string list" where
  "chars s = map (\<lambda>c. [c]) s"

text \<open>\<^verbatim>\<open>x or d\<close> on an optional string: \<^verbatim>\<open>None\<close> and the empty string give \<open>d\<close>.\<close>

definition py_or :: "string option \<Rightarrow> string \<Rightarrow> string" where
  "py_or x d = (case x of None \<Rightarrow> d | Some s \<Rightarrow> if s = [] then d else s)"

section \<open>Exceptions and dictionaries\<close>

text \<open>
  \<open>SystemExit\<close> carries the argument of \<^verbatim>\<open>sys.exit\<close>: a message (exit status 1) or a status.
  \<open>Exception t m\<close> is an exception of a class \<open>t\<close> derived from \<^verbatim>\<open>Exception\<close> with
  \<^verbatim>\<open>str(exc) = m\<close>.  \<^verbatim>\<open>error(msg, exit=True)\<close> of the external logger leaves through
  \<^verbatim>\<open>sys.exit\<close> with the message (the logger's prefix and colours are left out).
\<close>

datatype exit_arg = ExitMsg string | ExitCode int

datatype exn = SystemExit exit_arg | KeyboardInterrupt | Exception string string

definition error_exit :: "string \<Rightarrow> exn" where
  "error_exit msg = SystemExit (ExitMsg msg)"

text \<open>
  The handlers around the loops of \<open>merge_packages\<close> and around the template step:
  \<^verbatim>\<open>except Exception as exc: error(type(exc).__name__ + ": " + str(exc), exit=True)\<close> and
  \<^verbatim>\<open>except (KeyboardInterrupt, EOFError): sys.exit(1)\<close>; a \<open>SystemExit\<close> passes through.
\<close>

fun on_exception :: "exn \<Rightarrow> exn" where
  "on_exception (Exception t m) = error_exit (t @ '': '' @ m)"
| "on_exception KeyboardInterrupt = SystemExit (ExitCode 1)"
| "on_exception (SystemExit a) = SystemExit a"

text \<open>
  A Python \<^verbatim>\<open>dict\<close> is a list of key-value pairs in insertion order with distinct keys:
  \<^verbatim>\<open>d[k] = v\<close> replaces the value of a key already present, in place, and appends a new
  key at the end; \<^verbatim>\<open>d[k]\<close> is \<open>map_of d k\<close>, \<^verbatim>\<open>d.keys()\<close> is \<open>map fst d\<close>.
\<close>

fun dict_set :: "('k \<times> 'v) list \<Rightarrow> 'k \<Rightarrow> 'v \<Rightarrow> ('k \<times> 'v) list" where
  "dict_set [] k v = [(k, v)]"
| "dict_set ((k', v') # d) k v =
     (if k' = k then (k', v) # d else (k', v') # dict_set d k v)"

text \<open>\<^verbatim>\<open>list(dict.fromkeys(xs))\<close>.\<close>

definition dict_fromkeys :: "'k list \<Rightarrow> 'k list" where
  "dict_fromkeys xs = map fst (fold (\<lambda>x d. dict_set d x ()) xs [])"

section \<open>Dependency resolution\<close>

record dependency =
  name :: string
  condition :: "string option"
  version_lt :: "string option"
  version_lte :: "string option"
  version_eq :: "string option"
  version_gte :: "string option"
  version_gt :: "string option"

text \<open>
  The external resolution service \<^verbatim>\<open>resolve_rosdep_key(key, os_name, os_version, ros_distro,
  ignored, retry)\<close>: it returns the triple \<^verbatim>\<open>(resolved_key, installer_key,
  default_installer_key)\<close>, whose first component is \<^verbatim>\<open>None\<close> when the key is not found.
\<close>

type_synonym rosdep =
  "string \<Rightarrow> string \<Rightarrow> string \<Rightarrow> string \<Rightarrow> string list \<Rightarrow> bool
     \<Rightarrow> string list option \<times> string option \<times> string option"

text \<open>\<open>missing_dep_resolver\<close>, over the external \<^verbatim>\<open>default_fallback_resolver\<close>.\<close>

definition missing_dep_resolver ::
  "(string \<Rightarrow> string list \<Rightarrow> exn + string list) \<Rightarrow> string \<Rightarrow> string list \<Rightarrow> exn + string list" where
  "missing_dep_resolver default_fallback_resolver key peer_packages =
     (if key \<in> set peer_packages then Inr [sanitize_package_name key]
      else default_fallback_resolver key peer_packages)"

text \<open>
  \<open>resolve_dependencies\<close>.  The arguments \<^verbatim>\<open>peer_packages\<close> and \<^verbatim>\<open>fallback_resolver\<close> are
  received and not read: \<^verbatim>\<open>peer_packages\<close> is rebound to the list of key names before the
  loop.
\<close>

definition resolve_dependencies ::
  "rosdep \<Rightarrow> dependency list \<Rightarrow> string \<Rightarrow> string \<Rightarrow> string option \<Rightarrow> string list option
     \<Rightarrow> (string \<Rightarrow> string list \<Rightarrow> exn + string list) option \<Rightarrow> (string \<times> string list) list" where
  "resolve_dependencies resolve_rosdep_key keys0 os_name os_version ros_distro0 peer_packages0
       fallback_resolver =
     (let ros_distro = py_or ros_distro0 ''melodic'';
          keys = map dependency.name keys0;
          peer_packages = keys
      in fold (\<lambda>key resolved_keys.
                 (case resolve_rosdep_key key os_name os_version ros_distro peer_packages True of
                    (resolved_key, installer_key, default_installer_key) \<Rightarrow>
                      dict_set resolved_keys key
                        (case resolved_key of None \<Rightarrow> [key] | Some r \<Rightarrow> r)))
           keys [])"

section \<open>Substitution maps and aggregation\<close>

text \<open>
  A changelog entry is the tuple \<^verbatim>\<open>(version, date, changes, releaser, releaser_email)\<close>.
  \<open>substitutions\<close> is the dictionary \<^verbatim>\<open>data\<close> that \<open>generate_substitutions_from_package\<close>
  returns (the key \<^verbatim>\<open>pass_install_scripts\<close> is present for one build type only), and
  \<open>repo_header\<close> the dictionary \<^verbatim>\<open>repo_header\<close> that \<open>merge_packages\<close> builds.
\<close>

type_synonym changelog_entry = "string \<times> string \<times> string \<times> string \<times> string"

record substitutions =
  Name :: string
  Version :: string
  Description :: string
  Homepage :: string
  DebianInc :: string
  format :: string
  Package :: string
  InstallationPrefix :: string
  Depends :: "string list"
  BuildDepends :: "string list"
  Replaces :: "string list"
  Conflicts :: "string list"
  pass_install_scripts :: "bool option"
  Distribution :: string
  Date :: string
  YYYY :: string
  Maintainer :: string
  Maintainers :: string
  changelogs :: "changelog_entry list"
  debhelper_version :: int
  Copyright :: string

record repo_header =
  Package :: string
  DebianInc :: string
  format :: string
  InstallationPrefix :: string
  Maintainer :: string
  Maintainers :: string
  BuildDepends :: "string list"
  Homepage :: string
  Copyright :: string
  debhelper_version :: int
  changelogs :: "changelog_entry list"
  Distribution :: string

datatype substitution_map = PackageSubs substitutions | RepoHeader repo_header

type_synonym 'p get_subs =
  "'p \<Rightarrow> string \<Rightarrow> string \<Rightarrow> string \<Rightarrow> string \<Rightarrow> bool \<Rightarrow> exn + substitutions"

text \<open>
  The first loop of \<open>merge_packages\<close>: \<^verbatim>\<open>all_subs[subs['Name']] = subs\<close> for every package, any
  exception of \<^verbatim>\<open>get_subs_fn\<close> ending the run through the handlers.
\<close>

fun collect_subs ::
  "'p get_subs \<Rightarrow> string \<Rightarrow> string \<Rightarrow> string \<Rightarrow> string \<Rightarrow> bool \<Rightarrow> (string \<times> 'p) list
     \<Rightarrow> (string \<times> substitutions) list \<Rightarrow> exn + (string \<times> substitutions) list" where
  "collect_subs get_subs_fn os_name os_version ros_distro install_prefix native [] all_subs =
     Inr all_subs"
| "collect_subs get_subs_fn os_name os_version ros_distro install_prefix native
       ((path, pkg) # rest) all_subs =
     (case get_subs_fn pkg os_name os_version ros_distro install_prefix native of
        Inl e \<Rightarrow> Inl (on_exception e)
      | Inr subs \<Rightarrow>
          collect_subs get_subs_fn os_name os_version ros_distro install_prefix native rest
            (dict_set all_subs (substitutions.Name subs) subs))"

text \<open>
  The branch \<^verbatim>\<open>0 == cnt\<close> of the second loop.  \<^verbatim>\<open>sub['Maintainers']\<close> is a string, so
  \<^verbatim>\<open>sub['Maintainers'][0]\<close> is its first character, and an \<^verbatim>\<open>IndexError\<close> on the empty string.
\<close>

definition seed_header :: "substitutions \<Rightarrow> exn + repo_header" where
  "seed_header sub =
     (case substitutions.Maintainers sub of
        [] \<Rightarrow> Inl (Exception ''IndexError'' ''string index out of range'')
      | c # cs \<Rightarrow>
          Inr \<lparr>repo_header.Package = convertToUnicode (sanitize_package_name ''tesseract_core''),
               DebianInc = substitutions.DebianInc sub,
               format = substitutions.format sub,
               InstallationPrefix = substitutions.InstallationPrefix sub,
               Maintainer = [c],
               Maintainers = substitutions.Maintainers sub,
               BuildDepends = substitutions.BuildDepends sub,
               Homepage = substitutions.Homepage sub,
               Copyright = substitutions.Copyright sub,
               debhelper_version = substitutions.debhelper_version sub,
               changelogs = substitutions.changelogs sub,
               Distribution = substitutions.Distribution sub\<rparr>)"

text \<open>
  The \<^verbatim>\<open>else\<close> branch.  The two \<^verbatim>\<open>str.join\<close> calls build a new string each, which is dropped:
  only \<^verbatim>\<open>extend\<close> changes the header.
\<close>

definition merge_into_header :: "repo_header \<Rightarrow> substitutions \<Rightarrow> repo_header" where
  "merge_into_header repo_header sub =
     (let dropped_maintainers =
            join (repo_header.Maintainers repo_header)
              (chars (join '', '' (chars (substitutions.Maintainers sub))));
          build_depends = repo_header.BuildDepends repo_header @ substitutions.BuildDepends sub;
          dropped_copyright =
            join (repo_header.Copyright repo_header) (chars (substitutions.Copyright sub))
      in repo_header\<lparr>repo_header.BuildDepends := build_depends\<rparr>)"

text \<open>The second loop, over \<^verbatim>\<open>all_subs.items()\<close>, with the counter \<^verbatim>\<open>cnt\<close>.\<close>

fun merge_headers ::
  "(string \<times> substitutions) list \<Rightarrow> nat \<Rightarrow> repo_header option \<Rightarrow> exn + repo_header option" where
  "merge_headers [] cnt repo_header = Inr repo_header"
| "merge_headers ((pkg, sub) # rest) cnt repo_header =
     (if 0 = cnt then
        (case seed_header sub of
           Inl e \<Rightarrow> Inl (on_exception e)
         | Inr h \<Rightarrow> merge_headers rest (cnt + 1) (Some h))
      else
        (case repo_header of
           None \<Rightarrow> Inl (on_exception (Exception ''KeyError'' ([CHR 0x27] @ ''Maintainers'' @ [CHR 0x27])))
         | Some h \<Rightarrow> merge_headers rest (cnt + 1) (Some (merge_into_header h sub))))"

text \<open>
  \<open>merge_packages\<close>.  The header's \<^verbatim>\<open>BuildDepends\<close> is the list object of the first package's
  map, so \<^verbatim>\<open>extend\<close> has lengthened that package's list too (\<open>all_subs1\<close>); the two
  assignments after the loop give the header a list of its own.  With no package the header
  is empty and reading \<^verbatim>\<open>repo_header['BuildDepends']\<close> raises \<^verbatim>\<open>KeyError\<close>.
\<close>

definition merge_packages ::
  "(string \<times> 'p) list \<Rightarrow> 'p get_subs \<Rightarrow> string \<Rightarrow> string \<Rightarrow> string \<Rightarrow> string \<Rightarrow> bool
     \<Rightarrow> exn + (string \<times> substitution_map) list" where
  "merge_packages pkgs_dict get_subs_fn os_name os_version ros_distro install_prefix native =
     (case collect_subs get_subs_fn os_name os_version ros_distro install_prefix native
             pkgs_dict [] of
        Inl e \<Rightarrow> Inl e
      | Inr all_subs \<Rightarrow>
          (case merge_headers all_subs 0 None of
             Inl e \<Rightarrow> Inl e
           | Inr None \<Rightarrow>
               Inl (Exception ''KeyError'' ([CHR 0x27] @ ''BuildDepends'' @ [CHR 0x27]))
           | Inr (Some repo_header) \<Rightarrow>
               (let all_subs1 =
                      (case all_subs of
                         [] \<Rightarrow> []
                       | (k, first) # rest \<Rightarrow>
                           (k, first\<lparr>substitutions.BuildDepends :=
                                      repo_header.BuildDepends repo_header\<rparr>) # rest);
                    build_depends1 =
                      filter (\<lambda>x. x \<notin> set (map fst all_subs))
                        (repo_header.BuildDepends repo_header);
                    build_depends2 = dict_fromkeys build_depends1;
                    repo_header2 = repo_header\<lparr>repo_header.BuildDepends := build_depends2\<rparr>
                in Inr (dict_set (map (\<lambda>(k, subs). (k, PackageSubs subs)) all_subs1)
                          (repo_header.Package repo_header2) (RepoHeader repo_header2)))))"

section \<open>Packages and the environment\<close>

text \<open>
  The package description read from \<^verbatim>\<open>package.xml\<close> (the \<^verbatim>\<open>catkin_pkg\<close> package object), as far
  as the generator reads it; \<open>build_type\<close> is the value of \<^verbatim>\<open>package.get_build_type()\<close>,
  \<open>license_file\<close> the attribute \<^verbatim>\<open>file\<close> of a license (\<open>None\<close> when absent or \<^verbatim>\<open>None\<close>).
\<close>

record person =
  name :: string
  email :: string

record url =
  url_str :: string
  url_type :: string

record license =
  license_name :: string
  license_file :: "string option"

record package =
  name :: string
  version :: string
  description :: string
  urls :: "url list"
  maintainers :: "person list"
  licenses :: "license list"
  run_depends :: "dependency list"
  buildtool_export_depends :: "dependency list"
  build_depends :: "dependency list"
  buildtool_depends :: "dependency list"
  test_depends :: "dependency list"
  replaces :: "dependency list"
  conflicts :: "dependency list"
  filename :: string
  build_type :: string

text \<open>
  What the generator obtains from outside the repository:
  \<^item> \<open>rosdep\<close>: the resolution service \<^verbatim>\<open>resolve_rosdep_key\<close>;
  \<^item> \<open>evaluated_condition ros_distro dep\<close>: the attribute \<^verbatim>\<open>dep.evaluated_condition\<close> once
    \<^verbatim>\<open>evaluate_package_conditions(package, ros_distro)\<close> has run;
  \<^item> \<open>str_person\<close>: \<^verbatim>\<open>str(m)\<close> of a maintainer;
  \<^item> \<open>setup_cfg filename\<close>: \<open>None\<close> when there is no \<^verbatim>\<open>setup.cfg\<close> beside the package, else
    whether it has the options \<^verbatim>\<open>install-scripts\<close> and \<^verbatim>\<open>install_scripts\<close> of \<^verbatim>\<open>[install]\<close>;
  \<^item> \<open>stamp\<close>: the two renderings \<^verbatim>\<open>'%a, %d %b %Y %T %z'\<close> and \<^verbatim>\<open>'%Y'\<close> of
    \<^verbatim>\<open>datetime.now(tz.tzlocal())\<close>; \<open>now\<close>: \<^verbatim>\<open>datetime.now()\<close>; \<open>get_rfc_2822_date\<close>;
  \<^item> \<open>changelog filename\<close>: \<open>None\<close> when there is no \<^verbatim>\<open>CHANGELOG.rst\<close> beside the package,
    else what \<^verbatim>\<open>foreach_version(reverse=True)\<close> yields: version, date and the change items,
    each item as the lines \<^verbatim>\<open>to_unicode(item).splitlines()\<close>;
  \<^item> \<open>maybe_continue default msg\<close>: the operator's answer to the prompt;
  \<^item> \<open>parse_version_lt a b\<close>: \<^verbatim>\<open>parse_version(a) < parse_version(b)\<close>;
  \<^item> \<open>license_file_path filename file\<close>: \<^verbatim>\<open>os.path.join(os.path.dirname(filename), file)\<close>;
    \<open>file_text path\<close>: \<open>None\<close> when the path does not exist, else the text of the file.
\<close>

record env =
  rosdep :: rosdep
  evaluated_condition :: "string \<Rightarrow> dependency \<Rightarrow> bool option"
  str_person :: "person \<Rightarrow> string"
  setup_cfg :: "string \<Rightarrow> (bool \<times> bool) option"
  stamp :: "string \<times> string"
  now :: string
  get_rfc_2822_date :: "string \<Rightarrow> string"
  changelog :: "string \<Rightarrow> (string \<times> string \<times> string list list) list option"
  maybe_continue :: "string \<Rightarrow> string \<Rightarrow> bool"
  parse_version_lt :: "string \<Rightarrow> string \<Rightarrow> bool"
  license_file_path :: "string \<Rightarrow> string \<Rightarrow> string"
  file_text :: "string \<Rightarrow> string option"

section \<open>Substitutions of one package\<close>

text \<open>Decimal rendering of an integer, for \<^verbatim>\<open>'-{0}'.format(deb_inc)\<close>.\<close>

fun str_nat :: "nat \<Rightarrow> string" where
  "str_nat n =
     (if n < 10 then [''0123456789'' ! n]
      else str_nat (n div 10) @ [''0123456789'' ! (n mod 10)])"

definition str_int :: "int \<Rightarrow> string" where
  "str_int i = (if i < 0 then ''-'' @ str_nat (nat (- i)) else str_nat (nat i))"

text \<open>
  \<open>format_depends\<close>.  \<open>version_depends d\<close> lists the constraints that \<open>d\<close> carries, in the
  order of the dictionary \<^verbatim>\<open>versions\<close>, each with its Debian operator; a name missing from
  \<^verbatim>\<open>resolved_deps\<close> raises \<^verbatim>\<open>KeyError\<close>.
\<close>

definition version_depends :: "dependency \<Rightarrow> (string \<times> string) list" where
  "version_depends d =
     (case version_lt d of None \<Rightarrow> [] | Some v \<Rightarrow> [(''<<'', v)]) @
     (case version_lte d of None \<Rightarrow> [] | Some v \<Rightarrow> [(''<='', v)]) @
     (case version_eq d of None \<Rightarrow> [] | Some v \<Rightarrow> [(''='', v)]) @
     (case version_gte d of None \<Rightarrow> [] | Some v \<Rightarrow> [(''>='', v)]) @
     (case version_gt d of None \<Rightarrow> [] | Some v \<Rightarrow> [(''>>'', v)])"

fun format_depends ::
  "dependency list \<Rightarrow> (string \<times> string list) list \<Rightarrow> exn + string list" where
  "format_depends [] resolved_deps = Inr []"
| "format_depends (d # depends) resolved_deps =
     (case map_of resolved_deps (dependency.name d) of
        None \<Rightarrow> Inl (Exception ''KeyError'' ([CHR 0x27] @ dependency.name d @ [CHR 0x27]))
      | Some resolved \<Rightarrow>
          (case format_depends depends resolved_deps of
             Inl e \<Rightarrow> Inl e
           | Inr formatted \<Rightarrow>
               Inr (concat (map (\<lambda>resolved_dep.
                      if version_depends d = [] then [resolved_dep]
                      else map (\<lambda>(operator, v).
                             resolved_dep @ '' ('' @ operator @ '' '' @ v @ '')'')
                             (version_depends d))
                      resolved) @ formatted)))"

text \<open>\<^verbatim>\<open>sorted(set(format_depends(depends, resolved_deps)))\<close>.\<close>

definition sorted_set_format_depends ::
  "dependency list \<Rightarrow> (string \<times> string list) list \<Rightarrow> exn + string list" where
  "sorted_set_format_depends depends resolved_deps =
     (case format_depends depends resolved_deps of
        Inl e \<Rightarrow> Inl e
      | Inr formatted \<Rightarrow> Inr (sort (remdups formatted)))"

text \<open>
  The dependency part of \<open>generate_substitutions_from_package\<close>: the values of the keys
  \<^verbatim>\<open>Depends\<close>, \<^verbatim>\<open>BuildDepends\<close>, \<^verbatim>\<open>Replaces\<close> and \<^verbatim>\<open>Conflicts\<close>.
\<close>

definition dependency_substitutions ::
  "env \<Rightarrow> package \<Rightarrow> string \<Rightarrow> string \<Rightarrow> string \<Rightarrow> string list
     \<Rightarrow> (string \<Rightarrow> string list \<Rightarrow> exn + string list) option
     \<Rightarrow> exn + (string list \<times> string list \<times> string list \<times> string list)" where
  "dependency_substitutions env package os_name os_version ros_distro peer_packages
       fallback_resolver =
     (let keep = (\<lambda>dep. evaluated_condition env ros_distro dep \<noteq> Some False);
          depends = filter keep (run_depends package @ buildtool_export_depends package);
          build_depends =
            filter keep (build_depends package @ buildtool_depends package @ test_depends package);
          unresolved_keys =
            filter keep (depends @ build_depends @ replaces package @ conflicts package);
          resolved_deps =
            resolve_dependencies (rosdep env) unresolved_keys os_name os_version (Some ros_distro)
              (Some (peer_packages @
                 map dependency.name (replaces package @ conflicts package)))
              fallback_resolver
      in case sorted_set_format_depends depends resolved_deps of
           Inl e \<Rightarrow> Inl e
         | Inr d1 \<Rightarrow>
        (case sorted_set_format_depends build_depends resolved_deps of
           Inl e \<Rightarrow> Inl e
         | Inr d2 \<Rightarrow>
        (case sorted_set_format_depends (replaces package) resolved_deps of
           Inl e \<Rightarrow> Inl e
         | Inr d3 \<Rightarrow>
        (case sorted_set_format_depends (conflicts package) resolved_deps of
           Inl e \<Rightarrow> Inl e
         | Inr d4 \<Rightarrow> Inr (d1, d2, d3, d4)))))"

text \<open>
  The build-type part: the value of \<^verbatim>\<open>pass_install_scripts\<close> when the key is set, and the
  fatal error on a build type that is not supported.
\<close>

definition build_type_substitutions :: "env \<Rightarrow> package \<Rightarrow> exn + bool option" where
  "build_type_substitutions env package =
     (if build_type package = ''catkin'' then Inr None
      else if build_type package = ''cmake'' then Inr None
      else if build_type package = ''ament_cmake'' then Inr None
      else if build_type package = ''ament_python'' then
        Inr (Some (case setup_cfg env (filename package) of
                     None \<Rightarrow> True
                   | Some (install_dash_scripts, install_underscore_scripts) \<Rightarrow>
                       \<not> (install_dash_scripts \<or> install_underscore_scripts)))
      else Inl (error_exit (''Build type '' @ [CHR 0x27] @ build_type package @ [CHR 0x27]
                  @ '' is not supported by this version of bloom.'')))"

text \<open>
  The maintainers part: the values of \<^verbatim>\<open>Maintainer\<close> (\<^verbatim>\<open>maintainers[0]\<close>, an \<^verbatim>\<open>IndexError\<close>
  without maintainers) and \<^verbatim>\<open>Maintainers\<close> (\<^verbatim>\<open>', '.join(maintainers)\<close>).
\<close>

definition maintainers_substitutions :: "env \<Rightarrow> package \<Rightarrow> exn + (string \<times> string)" where
  "maintainers_substitutions env package =
     (case map (str_person env) (maintainers package) of
        [] \<Rightarrow> Inl (Exception ''IndexError'' ''list index out of range'')
      | m # ms \<Rightarrow> Inr (m, join '', '' (m # ms)))"

text \<open>
  \<open>get_changelogs\<close>.  Without a changelog file the history is empty; with one, every
  version gets its date, its change lines indented by two spaces and joined by line feeds,
  and the releaser recorded in \<^verbatim>\<open>releaser_history\<close>, by default the first maintainer.
\<close>

definition get_changelogs ::
  "env \<Rightarrow> package \<Rightarrow> (string \<times> string \<times> string) list option \<Rightarrow> exn + changelog_entry list" where
  "get_changelogs env package releaser_history0 =
     (let releaser_history = (case releaser_history0 of None \<Rightarrow> [] | Some h \<Rightarrow> h) in
      case changelog env (filename package) of
        Some entries \<Rightarrow>
          (case maintainers package of
             [] \<Rightarrow> Inl (Exception ''IndexError'' ''list index out of range'')
           | m # ms \<Rightarrow>
               Inr (map (\<lambda>(ver, date, changes).
                      (let changes_str = concat (map (map (\<lambda>i. ''  '' @ i)) changes);
                           date_str = get_rfc_2822_date env date;
                           releaser_email =
                             (case map_of releaser_history ver of
                                None \<Rightarrow> (person.name m, person.email m)
                              | Some r \<Rightarrow> r)
                       in (ver, date_str, join [CHR 0x0A] changes_str,
                           fst releaser_email, snd releaser_email)))
                    entries))
      | None \<Rightarrow> Inr [])"

text \<open>
  The entry inserted at the head when the version being released has no entry in the
  history.
\<close>

definition autogenerated_entry :: "env \<Rightarrow> package \<Rightarrow> person \<Rightarrow> changelog_entry" where
  "autogenerated_entry env package m =
     (version package, get_rfc_2822_date env (now env),
      ''  * Autogenerated, no changelog for this version found in CHANGELOG.rst.'',
      person.name m, person.email m)"

definition insert_current_version ::
  "env \<Rightarrow> package \<Rightarrow> changelog_entry list \<Rightarrow> exn + changelog_entry list" where
  "insert_current_version env package history =
     (if version package \<notin> set (map fst history) then
        (case maintainers package of
           [] \<Rightarrow> Inl (Exception ''IndexError'' ''list index out of range'')
         | m # ms \<Rightarrow> Inr (autogenerated_entry env package m # history))
      else Inr history)"

text \<open>
  The flag \<^verbatim>\<open>bad_changelog\<close> after the two checks, for a sequence whose first entry is
  \<open>first\<close>.
\<close>

definition bad_changelog :: "env \<Rightarrow> package \<Rightarrow> changelog_entry \<Rightarrow> changelog_entry list \<Rightarrow> bool" where
  "bad_changelog env package first entries =
     fold (\<lambda>entry bad.
             if parse_version_lt env (version package) (fst entry) then True else bad)
       entries
       (if version package \<noteq> fst first then True else False)"

text \<open>
  The end of the changelog part: a flagged sequence goes through the prompt
  \<^verbatim>\<open>maybe_continue('n', 'Continue anyways')\<close>, and the run ends with \<^verbatim>\<open>sys.exit("User quit.")\<close>
  unless the operator confirms.
\<close>

definition validate_changelogs ::
  "env \<Rightarrow> package \<Rightarrow> changelog_entry list \<Rightarrow> exn + changelog_entry list" where
  "validate_changelogs env package entries =
     (case entries of
        [] \<Rightarrow> Inl (Exception ''IndexError'' ''list index out of range'')
      | first # others \<Rightarrow>
          if bad_changelog env package first entries then
            (if \<not> maybe_continue env ''n'' ''Continue anyways''
             then Inl (SystemExit (ExitMsg ''User quit.''))
             else Inr entries)
          else Inr entries)"

definition changelog_substitutions ::
  "env \<Rightarrow> package \<Rightarrow> (string \<times> string \<times> string) list option \<Rightarrow> exn + changelog_entry list" where
  "changelog_substitutions env package releaser_history =
     (case get_changelogs env package releaser_history of
        Inl e \<Rightarrow> Inl e
      | Inr history \<Rightarrow>
          (case insert_current_version env package history of
             Inl e \<Rightarrow> Inl e
           | Inr entries \<Rightarrow> validate_changelogs env package entries))"

text \<open>
  The copyright part: the texts of the license files, each ending with a line feed, joined
  by a line of 80 equals signs; a license file that does not exist is a fatal error.
\<close>

fun license_texts :: "env \<Rightarrow> package \<Rightarrow> license list \<Rightarrow> exn + string list" where
  "license_texts env package [] = Inr []"
| "license_texts env package (l # ls) =
     (case license_file l of
        None \<Rightarrow> license_texts env package ls
      | Some f \<Rightarrow>
          (case file_text env (license_file_path env (filename package) f) of
             None \<Rightarrow>
               Inl (error_exit (''License file '' @ [CHR 0x27]
                      @ license_file_path env (filename package) f @ [CHR 0x27]
                      @ '' is not found.''))
           | Some license_text \<Rightarrow>
               (case license_texts env package ls of
                  Inl e \<Rightarrow> Inl e
                | Inr texts \<Rightarrow>
                    Inr ((if license_text \<noteq> [] \<and> last license_text = CHR 0x0A
                          then license_text else license_text @ [CHR 0x0A]) # texts))))"

definition copyright_substitution :: "env \<Rightarrow> package \<Rightarrow> exn + string" where
  "copyright_substitution env package =
     (case license_texts env package (licenses package) of
        Inl e \<Rightarrow> Inl e
      | Inr texts \<Rightarrow>
          Inr (join ([CHR 0x0A] @ replicate 80 CHR ''='' @ [CHR 0x0A, CHR 0x0A]) texts))"

text \<open>
  \<open>generate_substitutions_from_package\<close>.  The parts run in the order of the source, so the
  first failure is the one the source meets first.  Logging (\<^verbatim>\<open>warning\<close>, \<^verbatim>\<open>error\<close> without
  \<^verbatim>\<open>exit\<close>, \<open>summarize_dependency_mapping\<close>) writes to the terminal and changes no value.
\<close>

definition generate_substitutions_from_package ::
  "env \<Rightarrow> package \<Rightarrow> string \<Rightarrow> string \<Rightarrow> string \<Rightarrow> string \<Rightarrow> int \<Rightarrow> string list option
     \<Rightarrow> (string \<times> string \<times> string) list option
     \<Rightarrow> (string \<Rightarrow> string list \<Rightarrow> exn + string list) option \<Rightarrow> bool \<Rightarrow> exn + substitutions" where
  "generate_substitutions_from_package env package os_name os_version ros_distro
       installation_prefix deb_inc peer_packages0 releaser_history fallback_resolver native =
     (let peer_packages = (case peer_packages0 of None \<Rightarrow> [] | Some p \<Rightarrow> p);
          websites = map url_str (filter (\<lambda>u. url_type u = ''website'') (urls package));
          homepage = (case websites of [] \<Rightarrow> [] | w # ws \<Rightarrow> w)
      in case dependency_substitutions env package os_name os_version ros_distro peer_packages
                fallback_resolver of
           Inl e \<Rightarrow> Inl e
         | Inr (d1, d2, d3, d4) \<Rightarrow>
        (case build_type_substitutions env package of
           Inl e \<Rightarrow> Inl e
         | Inr install_scripts \<Rightarrow>
        (case maintainers_substitutions env package of
           Inl e \<Rightarrow> Inl e
         | Inr (maintainer, all_maintainers) \<Rightarrow>
        (case changelog_substitutions env package releaser_history of
           Inl e \<Rightarrow> Inl e
         | Inr package_changelogs \<Rightarrow>
        (case copyright_substitution env package of
           Inl e \<Rightarrow> Inl e
         | Inr copyright \<Rightarrow>
             Inr \<lparr>Name = convertToUnicode (package.name package),
                  Version = convertToUnicode (version package),
                  Description = convertToUnicode (format_description (description package)),
                  Homepage = convertToUnicode homepage,
                  DebianInc = convertToUnicode (if native then [] else ''-'' @ str_int deb_inc),
                  format = convertToUnicode (if native then ''native'' else ''quilt''),
                  Package = convertToUnicode (sanitize_package_name (package.name package)),
                  InstallationPrefix = convertToUnicode installation_prefix,
                  Depends = map convertToUnicode d1,
                  BuildDepends = map convertToUnicode d2,
                  Replaces = map convertToUnicode d3,
                  Conflicts = map convertToUnicode d4,
                  pass_install_scripts = install_scripts,
                  Distribution = convertToUnicode os_version,
                  Date = convertToUnicode (fst (stamp env)),
                  YYYY = convertToUnicode (snd (stamp env)),
                  Maintainer = convertToUnicode maintainer,
                  Maintainers = convertToUnicode all_maintainers,
                  changelogs = package_changelogs,
                  debhelper_version = (if os_version \<in> set [''oneiric''] then 7 else 9),
                  Copyright = convertToUnicode copyright\<rparr>)))))"

section \<open>The command\<close>

text \<open>
  The parsed command line, and what the command obtains from outside: the generator's
  environment, the working directory, \<^verbatim>\<open>find_packages\<close>, the detected OS name and version,
  the environment variable \<^verbatim>\<open>ROS_DISTRO\<close>, and the file-system operations of the template
  step on a file system of type \<open>'fs\<close>: \<open>place_template_files\<close>, \<open>process_template_files\<close>
  (which returns the list of processed templates) and \<^verbatim>\<open>os.remove\<close>.
\<close>

record args =
  package_path :: "string option"
  arg_place_template_files :: bool
  arg_process_template_files :: bool
  arg_os_name :: "string option"
  arg_os_version :: "string option"
  arg_ros_distro :: "string option"
  arg_install_prefix :: "string option"
  arg_native :: bool

record 'fs cmd_env =
  generator :: env
  getcwd :: string
  find_packages :: "string \<Rightarrow> (string \<times> package) list"
  get_os_name_and_version :: "string \<times> string"
  environ_ROS_DISTRO :: "string option"
  place_template_files :: "string \<Rightarrow> string \<Rightarrow> 'fs \<Rightarrow> exn + 'fs"
  process_template_files ::
    "string \<Rightarrow> (string \<times> substitution_map) list \<Rightarrow> 'fs \<Rightarrow> exn + (string list \<times> 'fs)"
  os_remove :: "string \<Rightarrow> 'fs \<Rightarrow> exn + 'fs"

text \<open>\<open>get_subs\<close>: the generator with its defaults for the arguments not passed.\<close>

definition get_subs :: "env \<Rightarrow> package get_subs" where
  "get_subs env pkg os_name os_version ros_distro install_prefix native =
     generate_substitutions_from_package env pkg os_name os_version ros_distro install_prefix
       0 None None None native"

fun remove_template_files :: "'fs cmd_env \<Rightarrow> string list \<Rightarrow> 'fs \<Rightarrow> exn + 'fs" where
  "remove_template_files cenv [] fs = Inr fs"
| "remove_template_files cenv (template_file # template_files) fs =
     (case os_remove cenv template_file fs of
        Inl e \<Rightarrow> Inl e
      | Inr fs1 \<Rightarrow> remove_template_files cenv template_files fs1)"

text \<open>
  The body of the \<^verbatim>\<open>try\<close> statement of \<open>build_debian_pkg\<close>.  Placing and processing the
  templates are operations on the file system and the template engine, taken from the
  environment.  The variable
  \<^verbatim>\<open>template_files\<close> is \<open>None\<close> here while it is unbound: reading it then raises
  \<^verbatim>\<open>UnboundLocalError\<close>.
\<close>

definition template_step ::
  "'fs cmd_env \<Rightarrow> bool \<Rightarrow> bool \<Rightarrow> (string \<times> substitution_map) list \<Rightarrow> 'fs \<Rightarrow> exn + 'fs" where
  "template_step cenv place process all_subs fs0 =
     (let path = []; cmake = ''cmake'' in
      case (if place then place_template_files cenv path cmake fs0 else Inr fs0) of
        Inl e \<Rightarrow> Inl e
      | Inr fs1 \<Rightarrow>
     (case (if process then
              (case process_template_files cenv path all_subs fs1 of
                 Inl e \<Rightarrow> Inl e
               | Inr (files, fs) \<Rightarrow> Inr (Some files, fs))
            else Inr (None, fs1)) of
        Inl e \<Rightarrow> Inl e
      | Inr (template_files1, fs2) \<Rightarrow>
     (case (if \<not> place \<and> \<not> process then
              (case place_template_files cenv path cmake fs2 of
                 Inl e \<Rightarrow> Inl e
               | Inr fs \<Rightarrow>
                   (case process_template_files cenv path all_subs fs of
                      Inl e \<Rightarrow> Inl e
                    | Inr (files, fs') \<Rightarrow> Inr (Some files, fs')))
            else Inr (template_files1, fs2)) of
        Inl e \<Rightarrow> Inl e
      | Inr (template_files2, fs3) \<Rightarrow>
     (case template_files2 of
        None \<Rightarrow>
          Inl (Exception ''UnboundLocalError''
                 (''local variable '' @ [CHR 0x27] @ ''template_files'' @ [CHR 0x27]
                  @ '' referenced before assignment''))
      | Some files \<Rightarrow> remove_template_files cenv files fs3))))"

text \<open>
  \<open>build_debian_pkg\<close>.  It leaves at once when no package is found; the test for more than
  one package is a comment in the source, so any other number of packages goes on to
  \<open>merge_packages\<close>.  Without \<^verbatim>\<open>args\<close> the overrides \<^verbatim>\<open>args.os_name or os_name\<close> raise
  \<^verbatim>\<open>AttributeError\<close>.
\<close>

definition build_debian_pkg ::
  "'fs cmd_env \<Rightarrow> args option \<Rightarrow> package get_subs option \<Rightarrow> 'fs \<Rightarrow> exn + 'fs" where
  "build_debian_pkg cenv args get_subs_fn0 fs =
     (let get_subs_fn = (case get_subs_fn0 of None \<Rightarrow> get_subs (generator cenv) | Some f \<Rightarrow> f);
          path = (case args of None \<Rightarrow> getcwd cenv
                  | Some a \<Rightarrow> py_or (package_path a) (getcwd cenv));
          place = (case args of None \<Rightarrow> True | Some a \<Rightarrow> arg_place_template_files a);
          process = (case args of None \<Rightarrow> True | Some a \<Rightarrow> arg_process_template_files a);
          pkgs_dict = find_packages cenv path
      in if length pkgs_dict = 0 then
           Inl (SystemExit (ExitMsg (''No packages found in path: '' @ [CHR 0x27] @ path
                  @ [CHR 0x27])))
         else
           (case args of
              None \<Rightarrow>
                Inl (Exception ''AttributeError''
                       ([CHR 0x27] @ ''NoneType'' @ [CHR 0x27] @ '' object has no attribute ''
                        @ [CHR 0x27] @ ''os_name'' @ [CHR 0x27]))
            | Some a \<Rightarrow>
                (let os_name = py_or (arg_os_name a) (fst (get_os_name_and_version cenv));
                     os_version = py_or (arg_os_version a) (snd (get_os_name_and_version cenv));
                     ros_distro =
                       py_or (arg_ros_distro a)
                         (case environ_ROS_DISTRO cenv of None \<Rightarrow> ''indigo'' | Some d \<Rightarrow> d);
                     install_prefix = py_or (arg_install_prefix a) ''/opt''
                 in case merge_packages pkgs_dict get_subs_fn os_name os_version ros_distro
                           install_prefix (arg_native a) of
                      Inl e \<Rightarrow> Inl e
                    | Inr all_subs \<Rightarrow>
                        (case template_step cenv place process all_subs fs of
                           Inl e \<Rightarrow> Inl (on_exception e)
                         | Inr fs' \<Rightarrow> Inr fs'))))"

section \<open>Example inputs\<close>

definition plain_dependency :: "string \<Rightarrow> dependency" where
  "plain_dependency n = \<lparr>dependency.name = n, condition = None, version_lt = None, version_lte = None,
     version_eq = None, version_gte = None, version_gt = None\<rparr>"

text \<open>A service that finds no key, and one that maps every key to a system package.\<close>

definition rosdep_not_found :: rosdep where
  "rosdep_not_found key os_name os_version ros_distro ignored retry = (None, None, None)"

definition rosdep_apt :: rosdep where
  "rosdep_apt key os_name os_version ros_distro ignored retry =
     (Some [''lib'' @ key @ ''-dev''], Some ''apt'', Some ''apt'')"

text \<open>
  An environment for the examples: no key known to the resolution service, no condition
  evaluated, no \<^verbatim>\<open>setup.cfg\<close>, dates already in RFC 2822 form, a changelog \<open>log\<close> and an
  operator who answers \<open>answer\<close>.  \<open>version_lt_example\<close> is the order of \<^verbatim>\<open>parse_version\<close> on
  the three versions that the examples use.
\<close>

definition str_person_example :: "person \<Rightarrow> string" where
  "str_person_example m = person.name m @ '' <'' @ person.email m @ ''>''"

definition version_lt_example :: "string \<Rightarrow> string \<Rightarrow> bool" where
  "version_lt_example a b \<longleftrightarrow>
     (a, b) \<in> set [(''1.1.0'', ''1.2.0''), (''1.1.0'', ''1.3.0''), (''1.2.0'', ''1.3.0'')]"

definition license_file_path_example :: "string \<Rightarrow> string \<Rightarrow> string" where
  "license_file_path_example package_xml f =
     (if package_xml = ''/ws/pkg_a/package.xml'' then ''/ws/pkg_a/'' @ f
      else ''/ws/pkg_b/'' @ f)"

definition file_text_example :: "string \<Rightarrow> string option" where
  "file_text_example path =
     (if path = ''/ws/pkg_a/LICENSE'' then Some (''License A'' @ [CHR 0x0A])
      else if path = ''/ws/pkg_b/LICENSE'' then Some ''License B''
      else None)"

definition example_env ::
  "(string \<times> string \<times> string list list) list option \<Rightarrow> bool \<Rightarrow> env" where
  "example_env log answer =
     \<lparr>rosdep = rosdep_not_found,
      evaluated_condition = (\<lambda>distro dep. None),
      str_person = str_person_example,
      setup_cfg = (\<lambda>package_xml. None),
      stamp = (''Mon, 01 Mar 2021 12:00:00 +0000'', ''2021''),
      now = ''Mon, 01 Mar 2021 12:00:00 -0000'',
      get_rfc_2822_date = (\<lambda>date. date),
      changelog = (\<lambda>package_xml. log),
      maybe_continue = (\<lambda>default msg. answer),
      parse_version_lt = version_lt_example,
      license_file_path = license_file_path_example,
      file_text = file_text_example\<rparr>"

definition alice :: person where
  "alice = \<lparr>person.name = ''Alice'', email = ''alice@example.org''\<rparr>"

definition pkg_a :: package where
  "pkg_a = \<lparr>package.name = ''pkg_a'', version = ''1.2.0'', description = ''Package A.'',
     urls = [],
     maintainers = [alice, \<lparr>person.name = ''Carol'', email = ''carol@example.org''\<rparr>],
     licenses = [\<lparr>license_name = ''BSD'', license_file = Some ''LICENSE''\<rparr>],
     run_depends = [], buildtool_export_depends = [],
     build_depends = [plain_dependency ''pkg_b''],
     buildtool_depends = [plain_dependency ''cmake''],
     test_depends = [], replaces = [], conflicts = [],
     filename = ''/ws/pkg_a/package.xml'', build_type = ''cmake''\<rparr>"

definition pkg_b :: package where
  "pkg_b = \<lparr>package.name = ''pkg_b'', version = ''1.2.0'', description = ''Package B.'',
     urls = [],
     maintainers = [\<lparr>person.name = ''Bob'', email = ''bob@example.org''\<rparr>],
     licenses = [\<lparr>license_name = ''BSD'', license_file = Some ''LICENSE''\<rparr>],
     run_depends = [], buildtool_export_depends = [],
     build_depends = [plain_dependency ''pkg_a'', plain_dependency ''eigen''],
     buildtool_depends = [plain_dependency ''cmake''],
     test_depends = [], replaces = [], conflicts = [],
     filename = ''/ws/pkg_b/package.xml'', build_type = ''cmake''\<rparr>"

text \<open>A changelog whose only entry is for a version newer than the one being released.\<close>

definition newer_log :: "(string \<times> string \<times> string list list) list" where
  "newer_log = [(''1.3.0'', ''Tue, 02 Mar 2021 09:00:00 -0000'', [[''* Newer'']])]"

text \<open>
  The two packages are released together, each a build dependency of the other, with
  different maintainers and licenses.  Their substitution maps, the packages as
  \<^verbatim>\<open>find_packages\<close> gives them, the dictionary \<^verbatim>\<open>all_subs\<close> after the first loop of
  \<open>merge_packages\<close>, and the header and the view that \<open>merge_packages\<close> returns.
\<close>

definition subs_pkg_a :: substitutions where
  "subs_pkg_a = \<lparr>Name = ''pkg_a'', Version = ''1.2.0'', Description = ''Package A.'',
     Homepage = [], DebianInc = ''-0'', format = ''quilt'', Package = ''pkg-a'',
     InstallationPrefix = ''/opt'', Depends = [], BuildDepends = [''cmake'', ''pkg_b''],
     Replaces = [], Conflicts = [], pass_install_scripts = None, Distribution = ''focal'',
     Date = ''Mon, 01 Mar 2021 12:00:00 +0000'', YYYY = ''2021'',
     Maintainer = ''Alice <alice@example.org>'',
     Maintainers = ''Alice <alice@example.org>, Carol <carol@example.org>'',
     changelogs = [(''1.2.0'', ''Mon, 01 Mar 2021 12:00:00 -0000'',
       ''  * Autogenerated, no changelog for this version found in CHANGELOG.rst.'',
       ''Alice'', ''alice@example.org'')],
     debhelper_version = 9, Copyright = ''License A'' @ [CHR 0x0A]\<rparr>"

definition subs_pkg_b :: substitutions where
  "subs_pkg_b = \<lparr>Name = ''pkg_b'', Version = ''1.2.0'', Description = ''Package B.'',
     Homepage = [], DebianInc = ''-0'', format = ''quilt'', Package = ''pkg-b'',
     InstallationPrefix = ''/opt'', Depends = [],
     BuildDepends = [''cmake'', ''eigen'', ''pkg_a''],
     Replaces = [], Conflicts = [], pass_install_scripts = None, Distribution = ''focal'',
     Date = ''Mon, 01 Mar 2021 12:00:00 +0000'', YYYY = ''2021'',
     Maintainer = ''Bob <bob@example.org>'', Maintainers = ''Bob <bob@example.org>'',
     changelogs = [(''1.2.0'', ''Mon, 01 Mar 2021 12:00:00 -0000'',
       ''  * Autogenerated, no changelog for this version found in CHANGELOG.rst.'',
       ''Bob'', ''bob@example.org'')],
     debhelper_version = 9, Copyright = ''License B'' @ [CHR 0x0A]\<rparr>"

definition workspace_pkgs :: "(string \<times> package) list" where
  "workspace_pkgs = [(''pkg_a'', pkg_a), (''pkg_b'', pkg_b)]"

definition two_pkgs :: "(string \<times> substitutions) list" where
  "two_pkgs = [(''pkg_a'', subs_pkg_a), (''pkg_b'', subs_pkg_b)]"

definition two_pkgs_header :: repo_header where
  "two_pkgs_header = \<lparr>Package = ''tesseract-core'', DebianInc = ''-0'', format = ''quilt'',
     InstallationPrefix = ''/opt'', Maintainer = ''A'',
     Maintainers = ''Alice <alice@example.org>, Carol <carol@example.org>'',
     BuildDepends = [''cmake'', ''eigen''], Homepage = [],
     Copyright = ''License A'' @ [CHR 0x0A], debhelper_version = 9,
     changelogs = [(''1.2.0'', ''Mon, 01 Mar 2021 12:00:00 -0000'',
       ''  * Autogenerated, no changelog for this version found in CHANGELOG.rst.'',
       ''Alice'', ''alice@example.org'')],
     Distribution = ''focal''\<rparr>"

definition two_pkgs_view :: "(string \<times> substitution_map) list" where
  "two_pkgs_view =
     [(''pkg_a'', PackageSubs (subs_pkg_a\<lparr>substitutions.BuildDepends :=
         [''cmake'', ''pkg_b'', ''cmake'', ''eigen'', ''pkg_a'']\<rparr>)),
      (''pkg_b'', PackageSubs subs_pkg_b),
      (''tesseract-core'', RepoHeader two_pkgs_header)]"

text \<open>
  A workspace \<^verbatim>\<open>/ws\<close> with the two packages, on a file system where every operation of the
  template step succeeds, and the command line \<^verbatim>\<open>/ws\<close> without options.
\<close>

definition example_cmd_env :: "unit cmd_env" where
  "example_cmd_env =
     \<lparr>generator = example_env None False,
      getcwd = ''/ws'',
      find_packages = (\<lambda>path. if path = ''/ws'' then workspace_pkgs else []),
      get_os_name_and_version = (''ubuntu'', ''focal''),
      environ_ROS_DISTRO = Some ''noetic'',
      place_template_files = (\<lambda>path kind fs. Inr fs),
      process_template_files = (\<lambda>path all_subs fs. Inr ([], fs)),
      os_remove = (\<lambda>template_file fs. Inr fs)\<rparr>"

definition example_args :: args where
  "example_args =
     \<lparr>package_path = Some ''/ws'', arg_place_template_files = False,
      arg_process_template_files = False, arg_os_name = None, arg_os_version = None,
      arg_ros_distro = None, arg_install_prefix = None, arg_native = False\<rparr>"

section \<open>Package names\<close>

lemma sanitize_no_underscore: "CHR ''_'' \<notin> set (sanitize_package_name x)"
  by (auto simp: sanitize_package_name_def)

text \<open>
  Claim C9.  Sanitizing a package name twice gives the same as sanitizing it once; the
  result contains no underscore, and position by position it is the name with each
  underscore replaced by a hyphen and every other character kept.
\<close>

theorem sanitize_package_name_idempotent:
  "sanitize_package_name (sanitize_package_name x) = sanitize_package_name x
   \<and> CHR ''_'' \<notin> set (sanitize_package_name x)
   \<and> list_all2 (\<lambda>a b. b = (if a = CHR ''_'' then CHR ''-'' else a)) x (sanitize_package_name x)"
proof -
  have "sanitize_package_name (sanitize_package_name x) = sanitize_package_name x"
    by (simp add: sanitize_package_name_def)
  moreover have "list_all2 (\<lambda>a b. b = (if a = CHR ''_'' then CHR ''-'' else a)) x
      (sanitize_package_name x)"
    by (simp add: sanitize_package_name_def list_all2_conv_all_nth)
  ultimately show ?thesis
    using sanitize_no_underscore by blast
qed

section \<open>Description formatting\<close>

lemma split_dot_space_None: "split_dot_space s = None \<longleftrightarrow> \<not> sublist ''. '' s"
  by (induction s rule: split_dot_space.induct)
     (auto simp: sublist_Cons_right split: option.splits)

lemma collapse_whitespace_chars:
  "c \<in> set (collapse_whitespace s) \<Longrightarrow> c = CHR '' '' \<or> \<not> isspace c"
  by (induction s rule: collapse_whitespace.induct) (auto split: if_splits)

lemma set_strip: "x \<in> set (strip s) \<Longrightarrow> x \<in> set s"
  unfolding strip_def by (auto dest!: set_dropWhileD)

lemma isspace_LF: "isspace (CHR 0x0A)"
  by (simp add: isspace_def)

lemma debianize_string_single_line: "CHR 0x0A \<notin> set (debianize_string v)"
proof
  assume "CHR 0x0A \<in> set (debianize_string v)"
  then have "CHR 0x0A \<in> set (collapse_whitespace (markup_remover_sub v))"
    by (simp add: debianize_string_def set_strip)
  then have "CHR 0x0A = CHR '' '' \<or> \<not> isspace (CHR 0x0A)"
    by (rule collapse_whitespace_chars)
  then show False by (simp add: isspace_LF)
qed

lemma format_description_no_break:
  "\<not> sublist ''. '' (debianize_string v) \<Longrightarrow> format_description v = debianize_string v"
  by (simp add: format_description_def Let_def split_dot_space_None[symmetric])

text \<open>
  Claim C8, as stated, on the input \<^verbatim>\<open>"Foo.\nBar"\<close>: the input has no occurrence of
  \<^verbatim>\<open>". "\<close>, its markup-stripped, whitespace-collapsed text is \<^verbatim>\<open>"Foo. Bar"\<close>, and the
  formatter does not return that text: the line feed has become a space before the split,
  so the result is the two lines \<^verbatim>\<open>"Foo."\<close> and \<^verbatim>\<open>" Bar"\<close>.
\<close>

theorem format_description_raw_input_counterexample:
  "\<not> sublist ''. '' (''Foo.'' @ [CHR 0x0A] @ ''Bar'')
   \<and> debianize_string (''Foo.'' @ [CHR 0x0A] @ ''Bar'') = ''Foo. Bar''
   \<and> format_description (''Foo.'' @ [CHR 0x0A] @ ''Bar'') = ''Foo.'' @ [CHR 0x0A] @ '' Bar''
   \<and> format_description (''Foo.'' @ [CHR 0x0A] @ ''Bar'')
       \<noteq> debianize_string (''Foo.'' @ [CHR 0x0A] @ ''Bar'')"
  by (simp add: split_dot_space_None[symmetric] format_description_def debianize_string_def
      strip_def isspace_def)

text \<open>
  Claim C8, amended.  For every input whose markup-stripped, whitespace-collapsed text has
  no occurrence of \<^verbatim>\<open>". "\<close>, the formatter returns that text unchanged, and it is a single
  line (it contains no line feed); for the input \<^verbatim>\<open>"Foo. Bar baz."\<close> it returns the synopsis
  line \<^verbatim>\<open>"Foo."\<close> followed by the line \<^verbatim>\<open>" Bar baz."\<close>, the rest indented by one space.
\<close>

theorem format_description_synopsis:
  "(\<not> sublist ''. '' (debianize_string v) \<longrightarrow>
      format_description v = debianize_string v \<and> CHR 0x0A \<notin> set (format_description v))
   \<and> format_description ''Foo. Bar baz.'' = ''Foo.'' @ [CHR 0x0A] @ '' Bar baz.''"
proof -
  have "format_description ''Foo. Bar baz.'' = ''Foo.'' @ [CHR 0x0A] @ '' Bar baz.''"
    by (simp add: format_description_def debianize_string_def strip_def isspace_def)
  then show ?thesis
    using format_description_no_break [of v] debianize_string_single_line [of v] by simp
qed

theorem format_description_synopsis_witness:
  "\<not> sublist ''. '' (debianize_string ''<b>Foo</b>  bar.'')
   \<and> format_description ''<b>Foo</b>  bar.'' = ''Foo bar.''
   \<and> CHR 0x0A \<notin> set (format_description ''<b>Foo</b>  bar.'')"
proof -
  have d: "debianize_string ''<b>Foo</b>  bar.'' = ''Foo bar.''"
    by (simp add: debianize_string_def strip_def isspace_def)
  have h: "\<not> sublist ''. '' (debianize_string ''<b>Foo</b>  bar.'')"
    unfolding d by (simp add: split_dot_space_None[symmetric])
  from format_description_synopsis [of "''<b>Foo</b>  bar.''"] h
  have "format_description ''<b>Foo</b>  bar.'' = debianize_string ''<b>Foo</b>  bar.''
      \<and> CHR 0x0A \<notin> set (format_description ''<b>Foo</b>  bar.'')"
    by blast
  then show ?thesis using h d by simp
qed

section \<open>Dictionaries\<close>

lemma map_of_dict_set: "map_of (dict_set d k v) = (map_of d)(k \<mapsto> v)"
  by (induction d k v rule: dict_set.induct) (auto simp: fun_eq_iff)

lemma keys_dict_set:
  "map fst (dict_set d k v) = (if k \<in> set (map fst d) then map fst d else map fst d @ [k])"
  by (induction d k v rule: dict_set.induct) auto

lemma set_keys_dict_set: "fst ` set (dict_set d k v) = insert k (fst ` set d)"
  by (induction d k v rule: dict_set.induct) auto

lemma map_of_fold_dict_set:
  "map_of (fold (\<lambda>key d. dict_set d key (g key)) keys d0) k =
     (if k \<in> set keys then Some (g k) else map_of d0 k)"
  by (induction keys arbitrary: d0) (auto simp: map_of_dict_set)


section \<open>Dependency resolution: results\<close>

lemma resolve_dependencies_lookup:
  "map_of (resolve_dependencies svc keys os_name os_version ros_distro peer_packages fb) k =
     (if k \<in> set (map dependency.name keys)
      then Some (case fst (svc k os_name os_version (py_or ros_distro ''melodic'')
                        (map dependency.name keys) True) of None \<Rightarrow> [k] | Some r \<Rightarrow> r)
      else None)"
  unfolding resolve_dependencies_def Let_def
  by (simp add: map_of_fold_dict_set [where g = "\<lambda>key. case fst (svc key os_name os_version
        (py_or ros_distro ''melodic'') (map dependency.name keys) True) of
          None \<Rightarrow> [key] | Some r \<Rightarrow> r" and ?d0.0 = "[]", simplified] case_prod_beta)


text \<open>
  Claim C1, as stated, on the key \<^verbatim>\<open>foo_bar\<close> with peer names \<^verbatim>\<open>["foo_bar"]\<close>: when the
  service finds nothing the key resolves to the literal \<^verbatim>\<open>["foo_bar"]\<close>, which is not the
  sanitized \<^verbatim>\<open>["foo-bar"]\<close>; and when the service has an answer for the key, that answer
  is the result, so the service is consulted for a peer key.
\<close>

theorem resolve_dependencies_peer_counterexample:
  "resolve_dependencies rosdep_not_found [plain_dependency ''foo_bar''] ''ubuntu'' ''focal''
       (Some ''noetic'') (Some [''foo_bar'']) None = [(''foo_bar'', [''foo_bar''])]
   \<and> [''foo_bar''] \<noteq> [sanitize_package_name ''foo_bar'']
   \<and> resolve_dependencies rosdep_apt [plain_dependency ''foo_bar''] ''ubuntu'' ''focal''
       (Some ''noetic'') (Some [''foo_bar'']) None = [(''foo_bar'', [''libfoo_bar-dev''])]"
  by (simp add: resolve_dependencies_def plain_dependency_def rosdep_not_found_def
      rosdep_apt_def sanitize_package_name_def)

text \<open>
  Claim C1, amended.  For every dependency key whose name is in the peer names passed to
  resolution, \<open>resolve_dependencies\<close> consults the external service for that key (with the
  list of all key names in the place of the peer names) and returns the service's result,
  or the one-element list of the literal, unsanitized key name when the service reports
  not-found.
\<close>

theorem resolve_dependencies_peer_key:
  assumes "k \<in> set (map dependency.name keys)"
    and "k \<in> set peer_names"
  shows "map_of (resolve_dependencies resolve_rosdep_key keys os_name os_version ros_distro
            (Some peer_names) fallback_resolver) k =
         Some (case fst (resolve_rosdep_key k os_name os_version (py_or ros_distro ''melodic'')
                   (map dependency.name keys) True) of
                 None \<Rightarrow> [k]
               | Some r \<Rightarrow> r)"
  using assms(1) by (simp add: resolve_dependencies_lookup)

theorem resolve_dependencies_peer_key_witness:
  "''foo_bar'' \<in> set (map dependency.name [plain_dependency ''foo_bar''])
   \<and> ''foo_bar'' \<in> set [''foo_bar'']
   \<and> map_of (resolve_dependencies rosdep_apt [plain_dependency ''foo_bar''] ''ubuntu'' ''focal''
         (Some ''noetic'') (Some [''foo_bar'']) None) ''foo_bar'' = Some [''libfoo_bar-dev'']"
proof -
  have h1: "''foo_bar'' \<in> set (map dependency.name [plain_dependency ''foo_bar''])"
    by (simp add: plain_dependency_def)
  have h2: "''foo_bar'' \<in> set [''foo_bar'']"
    by simp
  have "map_of (resolve_dependencies rosdep_apt [plain_dependency ''foo_bar''] ''ubuntu''
      ''focal'' (Some ''noetic'') (Some [''foo_bar'']) None) ''foo_bar'' =
      Some (case fst (rosdep_apt ''foo_bar'' ''ubuntu'' ''focal'' (py_or (Some ''noetic'') ''melodic'')
        (map dependency.name [plain_dependency ''foo_bar'']) True) of
          None \<Rightarrow> [''foo_bar''] | Some r \<Rightarrow> r)"
    by (rule resolve_dependencies_peer_key [where k = "''foo_bar''"
          and keys = "[plain_dependency ''foo_bar'']" and peer_names = "[''foo_bar'']"
          and resolve_rosdep_key = rosdep_apt and os_name = "''ubuntu''"
          and os_version = "''focal''" and ros_distro = "Some ''noetic''"
          and fallback_resolver = None, OF h1 h2])
  also have "\<dots> = Some [''libfoo_bar-dev'']"
    by (simp add: rosdep_apt_def)
  finally have h3: "map_of (resolve_dependencies rosdep_apt [plain_dependency ''foo_bar'']
      ''ubuntu'' ''focal'' (Some ''noetic'') (Some [''foo_bar'']) None) ''foo_bar'' =
      Some [''libfoo_bar-dev'']" .
  show ?thesis
    by (rule conjI [OF h1 conjI [OF h2 h3]])
qed



section \<open>The example packages\<close>

lemma dependency_substitutions_pkg_a:
  "dependency_substitutions (example_env log answer) pkg_a ''ubuntu'' ''focal'' ''noetic'' [] None =
     Inr ([], [''cmake'', ''pkg_b''], [], [])"
  by (simp add: dependency_substitutions_def example_env_def pkg_a_def plain_dependency_def
      resolve_dependencies_def rosdep_not_found_def sorted_set_format_depends_def
      version_depends_def py_or_def)

lemma dependency_substitutions_pkg_b:
  "dependency_substitutions (example_env log answer) pkg_b ''ubuntu'' ''focal'' ''noetic'' [] None =
     Inr ([], [''cmake'', ''eigen'', ''pkg_a''], [], [])"
  by (simp add: dependency_substitutions_def example_env_def pkg_b_def plain_dependency_def
      resolve_dependencies_def rosdep_not_found_def sorted_set_format_depends_def
      version_depends_def py_or_def)

lemma changelog_substitutions_pkg_a:
  "changelog_substitutions (example_env None answer) pkg_a None =
     Inr [(''1.2.0'', ''Mon, 01 Mar 2021 12:00:00 -0000'',
           ''  * Autogenerated, no changelog for this version found in CHANGELOG.rst.'',
           ''Alice'', ''alice@example.org'')]"
  by (simp add: changelog_substitutions_def get_changelogs_def insert_current_version_def
      validate_changelogs_def bad_changelog_def autogenerated_entry_def example_env_def
      pkg_a_def alice_def version_lt_example_def)

lemma changelog_substitutions_pkg_b:
  "changelog_substitutions (example_env None answer) pkg_b None =
     Inr [(''1.2.0'', ''Mon, 01 Mar 2021 12:00:00 -0000'',
           ''  * Autogenerated, no changelog for this version found in CHANGELOG.rst.'',
           ''Bob'', ''bob@example.org'')]"
  by (simp add: changelog_substitutions_def get_changelogs_def insert_current_version_def
      validate_changelogs_def bad_changelog_def autogenerated_entry_def example_env_def
      pkg_b_def version_lt_example_def)

lemma copyright_substitution_pkg_a:
  "copyright_substitution (example_env log answer) pkg_a = Inr (''License A'' @ [CHR 0x0A])"
  by (simp add: copyright_substitution_def example_env_def pkg_a_def
      license_file_path_example_def file_text_example_def)

lemma copyright_substitution_pkg_b:
  "copyright_substitution (example_env log answer) pkg_b = Inr (''License B'' @ [CHR 0x0A])"
  by (simp add: copyright_substitution_def example_env_def pkg_b_def
      license_file_path_example_def file_text_example_def)

lemma build_type_substitutions_pkg_a:
  "build_type_substitutions (example_env log answer) pkg_a = Inr None"
  by (simp add: build_type_substitutions_def pkg_a_def)

lemma build_type_substitutions_pkg_b:
  "build_type_substitutions (example_env log answer) pkg_b = Inr None"
  by (simp add: build_type_substitutions_def pkg_b_def)

lemma maintainers_substitutions_pkg_a:
  "maintainers_substitutions (example_env log answer) pkg_a =
     Inr (''Alice <alice@example.org>'',
          ''Alice <alice@example.org>, Carol <carol@example.org>'')"
  by (simp add: maintainers_substitutions_def example_env_def pkg_a_def alice_def
      str_person_example_def)

lemma maintainers_substitutions_pkg_b:
  "maintainers_substitutions (example_env log answer) pkg_b =
     Inr (''Bob <bob@example.org>'', ''Bob <bob@example.org>'')"
  by (simp add: maintainers_substitutions_def example_env_def pkg_b_def str_person_example_def)

lemma get_subs_pkg_a:
  "get_subs (example_env None answer) pkg_a ''ubuntu'' ''focal'' ''noetic'' ''/opt'' False =
     Inr subs_pkg_a"
proof -
  have "get_subs (example_env None answer) pkg_a ''ubuntu'' ''focal'' ''noetic'' ''/opt'' False =
      Inr \<lparr>Name = package.name pkg_a, Version = version pkg_a,
        Description = format_description (description pkg_a),
        Homepage = (case map url_str (filter (\<lambda>u. url_type u = ''website'') (urls pkg_a)) of
                      [] \<Rightarrow> [] | w # ws \<Rightarrow> w),
        DebianInc = ''-'' @ str_int 0, format = ''quilt'',
        Package = sanitize_package_name (package.name pkg_a), InstallationPrefix = ''/opt'',
        Depends = [], BuildDepends = [''cmake'', ''pkg_b''], Replaces = [], Conflicts = [],
        pass_install_scripts = None, Distribution = ''focal'',
        Date = fst (stamp (example_env None answer)),
        YYYY = snd (stamp (example_env None answer)),
        Maintainer = ''Alice <alice@example.org>'',
        Maintainers = ''Alice <alice@example.org>, Carol <carol@example.org>'',
        changelogs = [(''1.2.0'', ''Mon, 01 Mar 2021 12:00:00 -0000'',
           ''  * Autogenerated, no changelog for this version found in CHANGELOG.rst.'',
           ''Alice'', ''alice@example.org'')],
        debhelper_version = 9, Copyright = ''License A'' @ [CHR 0x0A]\<rparr>"
    by (simp add: get_subs_def generate_substitutions_from_package_def
        dependency_substitutions_pkg_a build_type_substitutions_pkg_a
        maintainers_substitutions_pkg_a changelog_substitutions_pkg_a
        copyright_substitution_pkg_a convertToUnicode_def)
  also have "\<dots> = Inr subs_pkg_a"
    by (simp add: example_env_def pkg_a_def subs_pkg_a_def format_description_def
        debianize_string_def strip_def isspace_def sanitize_package_name_def str_int_def)
  finally show ?thesis .
qed

lemma get_subs_pkg_b:
  "get_subs (example_env None answer) pkg_b ''ubuntu'' ''focal'' ''noetic'' ''/opt'' False =
     Inr subs_pkg_b"
proof -
  have "get_subs (example_env None answer) pkg_b ''ubuntu'' ''focal'' ''noetic'' ''/opt'' False =
      Inr \<lparr>Name = package.name pkg_b, Version = version pkg_b,
        Description = format_description (description pkg_b),
        Homepage = (case map url_str (filter (\<lambda>u. url_type u = ''website'') (urls pkg_b)) of
                      [] \<Rightarrow> [] | w # ws \<Rightarrow> w),
        DebianInc = ''-'' @ str_int 0, format = ''quilt'',
        Package = sanitize_package_name (package.name pkg_b), InstallationPrefix = ''/opt'',
        Depends = [], BuildDepends = [''cmake'', ''eigen'', ''pkg_a''], Replaces = [],
        Conflicts = [], pass_install_scripts = None, Distribution = ''focal'',
        Date = fst (stamp (example_env None answer)),
        YYYY = snd (stamp (example_env None answer)),
        Maintainer = ''Bob <bob@example.org>'', Maintainers = ''Bob <bob@example.org>'',
        changelogs = [(''1.2.0'', ''Mon, 01 Mar 2021 12:00:00 -0000'',
           ''  * Autogenerated, no changelog for this version found in CHANGELOG.rst.'',
           ''Bob'', ''bob@example.org'')],
        debhelper_version = 9, Copyright = ''License B'' @ [CHR 0x0A]\<rparr>"
    by (simp add: get_subs_def generate_substitutions_from_package_def
        dependency_substitutions_pkg_b build_type_substitutions_pkg_b
        maintainers_substitutions_pkg_b changelog_substitutions_pkg_b
        copyright_substitution_pkg_b convertToUnicode_def)
  also have "\<dots> = Inr subs_pkg_b"
    by (simp add: example_env_def pkg_b_def subs_pkg_b_def format_description_def
        debianize_string_def strip_def isspace_def sanitize_package_name_def str_int_def)
  finally show ?thesis .
qed

section \<open>Aggregation\<close>

lemma keys_fold_dict_set_first_seen:
  "map fst (fold (\<lambda>x d. dict_set d x ()) xs d0) =
     map fst d0 @ rev (remdups (rev (filter (\<lambda>x. x \<notin> fst ` set d0) xs)))"
proof (induction xs arbitrary: d0)
  case Nil
  then show ?case by simp
next
  case (Cons x xs)
  show ?case
  proof (cases "x \<in> fst ` set d0")
    case True
    then have "map fst (dict_set d0 x ()) = map fst d0" by (simp add: keys_dict_set)
    moreover have "fst ` set (dict_set d0 x ()) = fst ` set d0"
      using True by (simp add: set_keys_dict_set insert_absorb)
    ultimately show ?thesis using Cons.IH[of "dict_set d0 x ()"] True by simp
  next
    case False
    then have k: "map fst (dict_set d0 x ()) = map fst d0 @ [x]" by (simp add: keys_dict_set)
    have s: "fst ` set (dict_set d0 x ()) = insert x (fst ` set d0)"
      by (simp add: set_keys_dict_set)
    have "filter (\<lambda>y. y \<notin> insert x (fst ` set d0)) xs = filter (\<lambda>y. y \<noteq> x) (filter (\<lambda>y. y \<notin> fst ` set d0) xs)"
      by (induction xs) auto
    moreover have "\<And>ys. rev (remdups (rev (x # ys))) = x # rev (remdups (rev (filter (\<lambda>y. y \<noteq> x) ys)))"
    proof -
      fix ys :: "'a list"
      have "remdups (zs @ [x]) = filter (\<lambda>y. y \<noteq> x) (remdups zs) @ [x]" for zs
        by (induction zs) auto
      then show "rev (remdups (rev (x # ys))) = x # rev (remdups (rev (filter (\<lambda>y. y \<noteq> x) ys)))"
        by (simp add: rev_filter remdups_filter)
    qed
    ultimately show ?thesis using Cons.IH[of "dict_set d0 x ()"] False k s by simp
  qed
qed

lemma dict_fromkeys_first_seen: "dict_fromkeys xs = rev (remdups (rev xs))"
  using keys_fold_dict_set_first_seen[of xs "[]"] by (simp add: dict_fromkeys_def)

lemma dict_fromkeys_example:
  "dict_fromkeys [''a'', ''b'', ''a'', ''c''] = [''a'', ''b'', ''c'']"
  by (simp add: dict_fromkeys_def)

lemma merge_into_header_eq:
  "merge_into_header h sub =
     h\<lparr>repo_header.BuildDepends := repo_header.BuildDepends h @ substitutions.BuildDepends sub\<rparr>"
  by (simp add: merge_into_header_def Let_def)

lemma fold_merge_into_header:
  "fold (\<lambda>(k, sub) h. merge_into_header h sub) xs h =
     h\<lparr>repo_header.BuildDepends :=
         repo_header.BuildDepends h @ concat (map (\<lambda>(k, sub). substitutions.BuildDepends sub) xs)\<rparr>"
  by (induction xs arbitrary: h) (auto simp: merge_into_header_eq)

lemma merge_headers_Some:
  "cnt \<noteq> 0 \<Longrightarrow>
   merge_headers xs cnt (Some h) = Inr (Some (fold (\<lambda>(k, sub) h. merge_into_header h sub) xs h))"
  by (induction xs arbitrary: cnt h) auto

lemma seed_header_Inr:
  "seed_header sub = Inr h0 \<Longrightarrow>
     substitutions.Maintainers sub \<noteq> []
     \<and> repo_header.Maintainer h0 = take 1 (substitutions.Maintainers sub)
     \<and> repo_header.Maintainers h0 = substitutions.Maintainers sub
     \<and> repo_header.Copyright h0 = substitutions.Copyright sub
     \<and> repo_header.BuildDepends h0 = substitutions.BuildDepends sub
     \<and> repo_header.Package h0 = ''tesseract-core''"
  by (auto simp: seed_header_def convertToUnicode_def sanitize_package_name_def split: list.splits)

lemma collect_subs_keys:
  "collect_subs fn os_name os_version ros_distro install_prefix native pkgs d0 = Inr all_subs \<Longrightarrow>
   fst ` set all_subs = fst ` set d0 \<union>
     {substitutions.Name s | s. \<exists>(path, pkg) \<in> set pkgs.
        fn pkg os_name os_version ros_distro install_prefix native = Inr s}"
proof (induction pkgs arbitrary: d0)
  case Nil
  then show ?case by simp
next
  case (Cons a pkgs)
  obtain path pkg where a: "a = (path, pkg)" by (cases a)
  from Cons.prems a obtain s where
    s: "fn pkg os_name os_version ros_distro install_prefix native = Inr s"
    and r: "collect_subs fn os_name os_version ros_distro install_prefix native pkgs
         (dict_set d0 (substitutions.Name s) s) = Inr all_subs"
    by (auto split: sum.splits)
  from Cons.IH[OF r] show ?case
    using s a by (auto simp: set_keys_dict_set)
qed

lemma merge_packages_header:
  assumes c: "collect_subs fn os_name os_version ros_distro install_prefix native pkgs [] =
      Inr all_subs"
    and m: "merge_packages pkgs fn os_name os_version ros_distro install_prefix native = Inr view"
  shows "\<exists>k first rest h0. all_subs = (k, first) # rest \<and> seed_header first = Inr h0 \<and>
     map_of view ''tesseract-core'' = Some (RepoHeader (h0\<lparr>repo_header.BuildDepends :=
        dict_fromkeys (filter (\<lambda>x. x \<notin> fst ` set all_subs)
          (concat (map (\<lambda>(k, sub). substitutions.BuildDepends sub) all_subs)))\<rparr>))"
proof (cases all_subs)
  case Nil
  with c m show ?thesis by (simp add: merge_packages_def)
next
  case (Cons a rest)
  obtain k first where a: "a = (k, first)" by (cases a)
  show ?thesis
  proof (cases "seed_header first")
    case (Inl e)
    with c m Cons a show ?thesis by (simp add: merge_packages_def)
  next
    case (Inr h0)
    have p: "repo_header.Package h0 = ''tesseract-core''"
      and b: "repo_header.BuildDepends h0 = substitutions.BuildDepends first"
      using seed_header_Inr[OF Inr] by simp_all
    have mh: "merge_headers all_subs 0 None =
        Inr (Some (fold (\<lambda>(k, sub) h. merge_into_header h sub) rest h0))"
      using Cons a Inr by (simp add: merge_headers_Some)
    from m c mh have "view = dict_set (map (\<lambda>(k, subs). (k, PackageSubs subs))
          ((k, first\<lparr>substitutions.BuildDepends := repo_header.BuildDepends
             (fold (\<lambda>(k, sub) h. merge_into_header h sub) rest h0)\<rparr>) # rest))
        ''tesseract-core''
        (RepoHeader (h0\<lparr>repo_header.BuildDepends :=
          dict_fromkeys (filter (\<lambda>x. x \<notin> fst ` set all_subs)
            (concat (map (\<lambda>(k, sub). substitutions.BuildDepends sub) all_subs)))\<rparr>))"
      using Cons a p b by (simp add: merge_packages_def Let_def fold_merge_into_header)
    then show ?thesis
      using Cons a Inr by (simp add: map_of_dict_set)
  qed
qed

lemma merge_packages_header_first_values:
  assumes c: "collect_subs fn os_name os_version ros_distro install_prefix native pkgs [] =
      Inr ((k, first) # rest)"
    and m: "merge_packages pkgs fn os_name os_version ros_distro install_prefix native = Inr view"
  shows "\<exists>h. map_of view ''tesseract-core'' = Some (RepoHeader h)
      \<and> repo_header.Maintainers h = substitutions.Maintainers first
      \<and> repo_header.Copyright h = substitutions.Copyright first"
proof -
  from merge_packages_header [OF c m] obtain h0 b where
    s: "seed_header first = Inr h0"
    and v: "map_of view ''tesseract-core'' =
          Some (RepoHeader (h0\<lparr>repo_header.BuildDepends := b\<rparr>))"
    by auto
  from seed_header_Inr [OF s] v show ?thesis
    by simp
qed

lemma collect_subs_two_pkgs:
  "collect_subs (get_subs (example_env None answer)) ''ubuntu'' ''focal'' ''noetic'' ''/opt'' False
     workspace_pkgs [] = Inr two_pkgs"
  by (simp add: workspace_pkgs_def get_subs_pkg_a get_subs_pkg_b two_pkgs_def subs_pkg_a_def
      subs_pkg_b_def)

lemma merge_headers_two_pkgs:
  "merge_headers two_pkgs 0 None =
     Inr (Some (two_pkgs_header\<lparr>repo_header.BuildDepends :=
       [''cmake'', ''pkg_b'', ''cmake'', ''eigen'', ''pkg_a'']\<rparr>))"
  by (simp add: two_pkgs_def subs_pkg_a_def subs_pkg_b_def seed_header_def
      merge_into_header_def two_pkgs_header_def convertToUnicode_def sanitize_package_name_def)

lemma merge_packages_two_pkgs:
  "merge_packages workspace_pkgs (get_subs (example_env None False)) ''ubuntu'' ''focal''
     ''noetic'' ''/opt'' False = Inr two_pkgs_view"
proof -
  have "merge_packages workspace_pkgs (get_subs (example_env None False)) ''ubuntu'' ''focal''
      ''noetic'' ''/opt'' False =
      (let repo_header = two_pkgs_header\<lparr>repo_header.BuildDepends :=
             [''cmake'', ''pkg_b'', ''cmake'', ''eigen'', ''pkg_a'']\<rparr>;
           all_subs1 = (case two_pkgs of [] \<Rightarrow> []
              | (k, first) # rest \<Rightarrow> (k, first\<lparr>substitutions.BuildDepends :=
                   repo_header.BuildDepends repo_header\<rparr>) # rest);
           build_depends1 = filter (\<lambda>x. x \<notin> set (map fst two_pkgs))
              (repo_header.BuildDepends repo_header);
           build_depends2 = dict_fromkeys build_depends1;
           repo_header2 = repo_header\<lparr>repo_header.BuildDepends := build_depends2\<rparr>
       in Inr (dict_set (map (\<lambda>(k, subs). (k, PackageSubs subs)) all_subs1)
                 (repo_header.Package repo_header2) (RepoHeader repo_header2)))"
    by (simp add: merge_packages_def collect_subs_two_pkgs merge_headers_two_pkgs)
  also have "\<dots> = Inr two_pkgs_view"
    by (simp add: two_pkgs_def two_pkgs_view_def two_pkgs_header_def dict_fromkeys_def)
  finally show ?thesis .
qed

text \<open>
  Claim C3.  Whenever aggregation returns, the header's build-dependency list is the
  concatenation of the packages' lists, in the order of the packages, without the entries
  that are a package name of the release and with only the first occurrence of every
  remaining entry, in the order of these first occurrences (\<open>rev (remdups (rev xs))\<close>, as
  \<open>remdups\<close> keeps last occurrences): it has no duplicate and no entry equal to the name
  of any package of the release, mutual dependencies included.
\<close>

theorem merge_packages_build_depends:
  assumes c: "collect_subs get_subs_fn os_name os_version ros_distro install_prefix native
                pkgs_dict [] = Inr all_subs"
    and m: "merge_packages pkgs_dict get_subs_fn os_name os_version ros_distro install_prefix
                native = Inr view"
  shows "\<exists>h. map_of view ''tesseract-core'' = Some (RepoHeader h)
      \<and> repo_header.BuildDepends h =
          rev (remdups (rev (filter (\<lambda>x. x \<notin> fst ` set all_subs)
            (concat (map (\<lambda>(k, sub). substitutions.BuildDepends sub) all_subs)))))
      \<and> distinct (repo_header.BuildDepends h)
      \<and> set (repo_header.BuildDepends h) \<inter> fst ` set all_subs = {}
      \<and> (\<forall>(path, pkg) \<in> set pkgs_dict. \<forall>s.
            get_subs_fn pkg os_name os_version ros_distro install_prefix native = Inr s \<longrightarrow>
            substitutions.Name s \<notin> set (repo_header.BuildDepends h))"
proof -
  define merged where
    "merged = concat (map (\<lambda>(k, sub). substitutions.BuildDepends sub) all_subs)"
  define kept where "kept = filter (\<lambda>x. x \<notin> fst ` set all_subs) merged"
  from merge_packages_header [OF c m] obtain h0 where
    v: "map_of view ''tesseract-core'' =
          Some (RepoHeader (h0\<lparr>repo_header.BuildDepends := dict_fromkeys kept\<rparr>))"
    unfolding kept_def merged_def by blast
  define h where "h = h0\<lparr>repo_header.BuildDepends := dict_fromkeys kept\<rparr>"
  have b: "repo_header.BuildDepends h = rev (remdups (rev kept))"
    by (simp add: h_def dict_fromkeys_first_seen)
  have d: "distinct (repo_header.BuildDepends h)"
    unfolding b by simp
  have s: "set (repo_header.BuildDepends h) = set kept"
    unfolding b by simp
  have i: "set (repo_header.BuildDepends h) \<inter> fst ` set all_subs = {}"
    unfolding s kept_def by auto
  have n: "substitutions.Name s \<notin> set (repo_header.BuildDepends h)"
    if "(path, pkg) \<in> set pkgs_dict"
      and "get_subs_fn pkg os_name os_version ros_distro install_prefix native = Inr s"
    for path pkg s
  proof -
    from that have "substitutions.Name s \<in> fst ` set all_subs"
      unfolding collect_subs_keys [OF c] by auto
    with i show ?thesis by auto
  qed
  have v': "map_of view ''tesseract-core'' = Some (RepoHeader h)"
    using v by (simp add: h_def)
  show ?thesis
  proof (intro exI [of _ h] conjI)
    show "map_of view ''tesseract-core'' = Some (RepoHeader h)"
      by (rule v')
    show "repo_header.BuildDepends h =
        rev (remdups (rev (filter (\<lambda>x. x \<notin> fst ` set all_subs)
          (concat (map (\<lambda>(k, sub). substitutions.BuildDepends sub) all_subs)))))"
      using b by (simp add: kept_def merged_def)
    show "distinct (repo_header.BuildDepends h)"
      by (rule d)
    show "set (repo_header.BuildDepends h) \<inter> fst ` set all_subs = {}"
      by (rule i)
    show "\<forall>(path, pkg) \<in> set pkgs_dict. \<forall>s.
        get_subs_fn pkg os_name os_version ros_distro install_prefix native = Inr s \<longrightarrow>
        substitutions.Name s \<notin> set (repo_header.BuildDepends h)"
      using n by auto
  qed
qed

theorem merge_packages_build_depends_witness:
  "collect_subs (get_subs (example_env None False)) ''ubuntu'' ''focal'' ''noetic'' ''/opt''
     False workspace_pkgs [] =
     Inr two_pkgs
   \<and> merge_packages workspace_pkgs (get_subs (example_env None False)) ''ubuntu'' ''focal''
       ''noetic'' ''/opt'' False =
     Inr two_pkgs_view
   \<and> map_of two_pkgs_view ''tesseract-core'' = Some (RepoHeader two_pkgs_header)
   \<and> repo_header.BuildDepends two_pkgs_header = [''cmake'', ''eigen'']
   \<and> distinct (repo_header.BuildDepends two_pkgs_header)"
proof -
  note c = collect_subs_two_pkgs
  note m = merge_packages_two_pkgs
  have v: "map_of two_pkgs_view ''tesseract-core'' = Some (RepoHeader two_pkgs_header)"
    by (simp add: two_pkgs_view_def)
  from merge_packages_build_depends [where get_subs_fn = "get_subs (example_env None False)"
      and os_name = "''ubuntu''" and os_version = "''focal''" and ros_distro = "''noetic''"
      and install_prefix = "''/opt''" and native = False and pkgs_dict = workspace_pkgs
      and all_subs = two_pkgs and view = two_pkgs_view, OF c m]
  obtain h where h: "map_of two_pkgs_view ''tesseract-core'' = Some (RepoHeader h)"
    and d: "distinct (repo_header.BuildDepends h)"
    by blast
  from h v have "h = two_pkgs_header"
    by simp
  with d have d': "distinct (repo_header.BuildDepends two_pkgs_header)"
    by simp
  have b: "repo_header.BuildDepends two_pkgs_header = [''cmake'', ''eigen'']"
    by (simp add: two_pkgs_header_def)
  show ?thesis
    by (rule conjI [OF c conjI [OF m conjI [OF v conjI [OF b d']]]])
qed

text \<open>
  Claim C10.  Whenever aggregation returns, the header's \<^verbatim>\<open>Maintainer\<close> is the one-character
  string made of the first character of the first package's \<^verbatim>\<open>Maintainers\<close> string; on the
  example it is \<^verbatim>\<open>"A"\<close>, not the first maintainer \<^verbatim>\<open>"Alice <alice@example.org>"\<close>.
\<close>

theorem merge_packages_maintainer_first_character:
  assumes c: "collect_subs get_subs_fn os_name os_version ros_distro install_prefix native
                pkgs_dict [] = Inr ((k, first) # rest)"
    and m: "merge_packages pkgs_dict get_subs_fn os_name os_version ros_distro install_prefix
                native = Inr view"
  shows "\<exists>h. map_of view ''tesseract-core'' = Some (RepoHeader h)
      \<and> substitutions.Maintainers first \<noteq> []
      \<and> repo_header.Maintainer h = [hd (substitutions.Maintainers first)]"
proof -
  from merge_packages_header [OF c m] obtain h0 b where
    s: "seed_header first = Inr h0"
    and v: "map_of view ''tesseract-core'' =
          Some (RepoHeader (h0\<lparr>repo_header.BuildDepends := b\<rparr>))"
    by auto
  from seed_header_Inr [OF s] have n: "substitutions.Maintainers first \<noteq> []"
    and t: "repo_header.Maintainer h0 = take 1 (substitutions.Maintainers first)"
    by simp_all
  from n t have "repo_header.Maintainer (h0\<lparr>repo_header.BuildDepends := b\<rparr>) =
      [hd (substitutions.Maintainers first)]"
    by (cases "substitutions.Maintainers first") simp_all
  with v n show ?thesis
    by blast
qed

theorem merge_packages_maintainer_first_character_witness:
  "collect_subs (get_subs (example_env None False)) ''ubuntu'' ''focal'' ''noetic'' ''/opt''
     False workspace_pkgs [] =
     Inr ((''pkg_a'', subs_pkg_a) # [(''pkg_b'', subs_pkg_b)])
   \<and> merge_packages workspace_pkgs (get_subs (example_env None False)) ''ubuntu'' ''focal''
       ''noetic'' ''/opt'' False =
     Inr two_pkgs_view
   \<and> map_of two_pkgs_view ''tesseract-core'' = Some (RepoHeader two_pkgs_header)
   \<and> substitutions.Maintainers subs_pkg_a =
       ''Alice <alice@example.org>, Carol <carol@example.org>''
   \<and> substitutions.Maintainer subs_pkg_a = ''Alice <alice@example.org>''
   \<and> repo_header.Maintainer two_pkgs_header = ''A''"
proof -
  have c: "collect_subs (get_subs (example_env None False)) ''ubuntu'' ''focal'' ''noetic'' ''/opt''
     False workspace_pkgs [] =
      Inr ((''pkg_a'', subs_pkg_a) # [(''pkg_b'', subs_pkg_b)])"
    using collect_subs_two_pkgs by (simp add: two_pkgs_def)
  note m = merge_packages_two_pkgs
  have v: "map_of two_pkgs_view ''tesseract-core'' = Some (RepoHeader two_pkgs_header)"
    by (simp add: two_pkgs_view_def)
  have ms: "substitutions.Maintainers subs_pkg_a =
      ''Alice <alice@example.org>, Carol <carol@example.org>''"
    by (simp add: subs_pkg_a_def)
  have m1: "substitutions.Maintainer subs_pkg_a = ''Alice <alice@example.org>''"
    by (simp add: subs_pkg_a_def)
  from merge_packages_maintainer_first_character [where get_subs_fn = "get_subs (example_env None False)"
      and os_name = "''ubuntu''" and os_version = "''focal''" and ros_distro = "''noetic''"
      and install_prefix = "''/opt''" and native = False and pkgs_dict = workspace_pkgs
      and k = "''pkg_a''" and first = subs_pkg_a and rest = "[(''pkg_b'', subs_pkg_b)]"
      and view = two_pkgs_view, OF c m]
  obtain h where h: "map_of two_pkgs_view ''tesseract-core'' = Some (RepoHeader h)"
    and f: "repo_header.Maintainer h = [hd (substitutions.Maintainers subs_pkg_a)]"
    by blast
  from h v have "h = two_pkgs_header"
    by simp
  with f have r: "repo_header.Maintainer two_pkgs_header = ''A''"
    by (simp add: ms)
  show ?thesis
    by (rule conjI [OF c conjI [OF m conjI [OF v conjI [OF ms conjI [OF m1 r]]]]])
qed

text \<open>
  Claim C2 on two packages (for any number of packages \<open>merge_packages_header_first_values\<close>
  says the same): the second package's maintainer \<^verbatim>\<open>"Bob <bob@example.org>"\<close> and
  license text \<^verbatim>\<open>"License B"\<close> are absent from the header, whose \<^verbatim>\<open>Maintainers\<close> and
  \<^verbatim>\<open>Copyright\<close> are the first package's values; the build dependencies of both packages
  have been merged.
\<close>

theorem merge_packages_two_pkgs_first_values_only:
  "merge_packages workspace_pkgs (get_subs (example_env None False)) ''ubuntu'' ''focal''
     ''noetic'' ''/opt'' False =
     Inr two_pkgs_view
   \<and> map_of two_pkgs_view ''tesseract-core'' = Some (RepoHeader two_pkgs_header)
   \<and> substitutions.Maintainers subs_pkg_b = ''Bob <bob@example.org>''
   \<and> repo_header.Maintainers two_pkgs_header =
       ''Alice <alice@example.org>, Carol <carol@example.org>''
   \<and> substitutions.Copyright subs_pkg_b = ''License B'' @ [CHR 0x0A]
   \<and> repo_header.Copyright two_pkgs_header = ''License A'' @ [CHR 0x0A]
   \<and> repo_header.BuildDepends two_pkgs_header = [''cmake'', ''eigen'']"
  using merge_packages_two_pkgs
  by (simp add: two_pkgs_view_def two_pkgs_header_def subs_pkg_b_def)

section \<open>Changelog\<close>

lemma fold_flag:
  "fold (\<lambda>entry bad. if P entry then True else bad) entries b \<longleftrightarrow>
     b \<or> (\<exists>entry \<in> set entries. P entry)"
  by (induction entries arbitrary: b) auto

lemma bad_changelog_iff:
  "bad_changelog env package first entries \<longleftrightarrow>
     version package \<noteq> fst first
     \<or> (\<exists>entry \<in> set entries. parse_version_lt env (version package) (fst entry))"
  unfolding bad_changelog_def fold_flag by simp

lemma validate_changelogs_Inr:
  "validate_changelogs env package entries = Inr r \<Longrightarrow> r = entries"
  by (auto simp: validate_changelogs_def split: list.splits if_splits)

lemma generate_substitutions_changelogs:
  "generate_substitutions_from_package env package os_name os_version ros_distro
       installation_prefix deb_inc peer_packages releaser_history fallback_resolver native = Inr data
   \<Longrightarrow> changelog_substitutions env package releaser_history = Inr (substitutions.changelogs data)"
  unfolding generate_substitutions_from_package_def Let_def
  by (auto split: sum.splits prod.splits)

lemma get_changelogs_no_log:
  "get_changelogs (example_env None answer) pkg_a None = Inr []"
  by (simp add: get_changelogs_def example_env_def)

lemma get_changelogs_newer_log:
  "get_changelogs (example_env (Some newer_log) answer) pkg_a None =
     Inr [(''1.3.0'', ''Tue, 02 Mar 2021 09:00:00 -0000'', ''  * Newer'', ''Alice'',
           ''alice@example.org'')]"
  by (simp add: get_changelogs_def example_env_def newer_log_def pkg_a_def alice_def)

lemma maintainers_pkg_a:
  "maintainers pkg_a = alice # [\<lparr>person.name = ''Carol'', email = ''carol@example.org''\<rparr>]"
  by (simp add: pkg_a_def)

lemma insert_current_version_newer_log:
  "insert_current_version (example_env (Some newer_log) answer) pkg_a
     [(''1.3.0'', ''Tue, 02 Mar 2021 09:00:00 -0000'', ''  * Newer'', ''Alice'',
       ''alice@example.org'')] =
   Inr ((''1.2.0'', ''Mon, 01 Mar 2021 12:00:00 -0000'',
         ''  * Autogenerated, no changelog for this version found in CHANGELOG.rst.'',
         ''Alice'', ''alice@example.org'')
        # [(''1.3.0'', ''Tue, 02 Mar 2021 09:00:00 -0000'', ''  * Newer'', ''Alice'',
            ''alice@example.org'')])"
  by (simp add: insert_current_version_def autogenerated_entry_def example_env_def pkg_a_def
      alice_def)

text \<open>
  Claim C5.  When the version being released has no entry in the history that
  \<open>get_changelogs\<close> returns, the changelog sequence is the history with one entry put at
  its head: the current version, the date of now, the fixed text
  \<^verbatim>\<open>"  * Autogenerated, no changelog for this version found in CHANGELOG.rst."\<close> and the name
  and email of the first maintainer.  Without a changelog file the history is empty, so the
  sequence is that one entry.  This sequence is the value of \<^verbatim>\<open>changelogs\<close> in every
  substitution map that the generator returns.
\<close>

theorem changelog_current_version_inserted:
  assumes h: "get_changelogs env package releaser_history = Inr history"
    and a: "version package \<notin> set (map fst history)"
    and m: "maintainers package = m # ms"
  shows "insert_current_version env package history =
           Inr ((version package, get_rfc_2822_date env (now env),
                 ''  * Autogenerated, no changelog for this version found in CHANGELOG.rst.'',
                 person.name m, person.email m) # history)
     \<and> (changelog env (filename package) = None \<longrightarrow> history = [])
     \<and> (\<forall>data. generate_substitutions_from_package env package os_name os_version ros_distro
            installation_prefix deb_inc peer_packages releaser_history fallback_resolver native
            = Inr data \<longrightarrow>
          substitutions.changelogs data =
            (version package, get_rfc_2822_date env (now env),
             ''  * Autogenerated, no changelog for this version found in CHANGELOG.rst.'',
             person.name m, person.email m) # history)"
proof -
  let ?entry = "(version package, get_rfc_2822_date env (now env),
     ''  * Autogenerated, no changelog for this version found in CHANGELOG.rst.'',
     person.name m, person.email m)"
  have i: "insert_current_version env package history = Inr (?entry # history)"
    using a m by (simp add: insert_current_version_def autogenerated_entry_def)
  have n: "history = []" if "changelog env (filename package) = None"
    using h that by (simp add: get_changelogs_def)
  have g: "substitutions.changelogs data = ?entry # history"
    if "generate_substitutions_from_package env package os_name os_version ros_distro
          installation_prefix deb_inc peer_packages releaser_history fallback_resolver native
          = Inr data" for data
  proof -
    from generate_substitutions_changelogs [OF that]
    have "validate_changelogs env package (?entry # history) =
        Inr (substitutions.changelogs data)"
      using h i by (simp add: changelog_substitutions_def)
    then show ?thesis
      by (rule validate_changelogs_Inr)
  qed
  from i n g show ?thesis
    by blast
qed

theorem changelog_current_version_inserted_witness:
  "get_changelogs (example_env None False) pkg_a None = Inr []
   \<and> maintainers pkg_a = alice # [\<lparr>person.name = ''Carol'', email = ''carol@example.org''\<rparr>]
   \<and> insert_current_version (example_env None False) pkg_a [] =
       Inr [(''1.2.0'', ''Mon, 01 Mar 2021 12:00:00 -0000'',
             ''  * Autogenerated, no changelog for this version found in CHANGELOG.rst.'',
             ''Alice'', ''alice@example.org'')]
   \<and> get_subs (example_env None False) pkg_a ''ubuntu'' ''focal'' ''noetic'' ''/opt'' False =
       Inr subs_pkg_a
   \<and> substitutions.changelogs subs_pkg_a =
       [(''1.2.0'', ''Mon, 01 Mar 2021 12:00:00 -0000'',
         ''  * Autogenerated, no changelog for this version found in CHANGELOG.rst.'',
         ''Alice'', ''alice@example.org'')]"
proof -
  note h = get_changelogs_no_log [of False]
  have a: "version pkg_a \<notin> set (map fst ([] :: changelog_entry list))"
    by simp
  note m = maintainers_pkg_a
  note g = get_subs_pkg_a [of False]
  note t = changelog_current_version_inserted [where env = "example_env None False"
      and package = pkg_a and releaser_history = None and history = "[]" and m = alice
      and ms = "[\<lparr>person.name = ''Carol'', email = ''carol@example.org''\<rparr>]"
      and os_name = "''ubuntu''" and os_version = "''focal''" and ros_distro = "''noetic''"
      and installation_prefix = "''/opt''" and deb_inc = 0 and peer_packages = None
      and fallback_resolver = None and native = False, OF h a m]
  have e: "(version pkg_a, get_rfc_2822_date (example_env None False)
        (now (example_env None False)),
      ''  * Autogenerated, no changelog for this version found in CHANGELOG.rst.'',
      person.name alice, person.email alice) =
      (''1.2.0'', ''Mon, 01 Mar 2021 12:00:00 -0000'',
       ''  * Autogenerated, no changelog for this version found in CHANGELOG.rst.'',
       ''Alice'', ''alice@example.org'')"
    by (simp add: pkg_a_def example_env_def alice_def)
  from t have i: "insert_current_version (example_env None False) pkg_a [] =
      Inr [(''1.2.0'', ''Mon, 01 Mar 2021 12:00:00 -0000'',
            ''  * Autogenerated, no changelog for this version found in CHANGELOG.rst.'',
            ''Alice'', ''alice@example.org'')]"
    unfolding e by (rule conjunct1)
  from t g have c: "substitutions.changelogs subs_pkg_a =
      [(''1.2.0'', ''Mon, 01 Mar 2021 12:00:00 -0000'',
        ''  * Autogenerated, no changelog for this version found in CHANGELOG.rst.'',
        ''Alice'', ''alice@example.org'')]"
    unfolding e get_subs_def by simp
  show ?thesis
    by (rule conjI [OF h conjI [OF m conjI [OF i conjI [OF g c]]]])
qed

text \<open>
  Claim C4.  When the first entry of the assembled sequence is not for the current
  version, or some entry has a version above the current one in the order of
  \<^verbatim>\<open>parse_version\<close>, the sequence is flagged and the outcome is put to the operator through
  \<^verbatim>\<open>maybe_continue('n', 'Continue anyways')\<close>, whose default is no: the changelog part returns
  the sequence only on a confirmation, else the run ends with \<^verbatim>\<open>sys.exit("User quit.")\<close> and
  the generator returns no substitution map.  So it is for the history
  \<^verbatim>\<open>[("1.3.0", ...)]\<close> with current version \<^verbatim>\<open>"1.2.0"\<close>, shown after the theorem.
\<close>

theorem changelog_validation_gate:
  assumes h: "get_changelogs env package releaser_history = Inr history"
    and i: "insert_current_version env package history = Inr (first # others)"
    and b: "version package \<noteq> fst first
       \<or> (\<exists>entry \<in> set (first # others). parse_version_lt env (version package) (fst entry))"
  shows "bad_changelog env package first (first # others)
     \<and> changelog_substitutions env package releaser_history =
         (if maybe_continue env ''n'' ''Continue anyways'' then Inr (first # others)
          else Inl (SystemExit (ExitMsg ''User quit.'')))
     \<and> (\<not> maybe_continue env ''n'' ''Continue anyways'' \<longrightarrow>
          (\<forall>data. generate_substitutions_from_package env package os_name os_version ros_distro
             installation_prefix deb_inc peer_packages releaser_history fallback_resolver
             native \<noteq> Inr data))"
proof -
  have f: "bad_changelog env package first (first # others)"
    using b unfolding bad_changelog_iff .
  have c: "changelog_substitutions env package releaser_history =
      (if maybe_continue env ''n'' ''Continue anyways'' then Inr (first # others)
       else Inl (SystemExit (ExitMsg ''User quit.'')))"
    using h i f by (simp add: changelog_substitutions_def validate_changelogs_def)
  have g: "generate_substitutions_from_package env package os_name os_version ros_distro
      installation_prefix deb_inc peer_packages releaser_history fallback_resolver native
      \<noteq> Inr data" if "\<not> maybe_continue env ''n'' ''Continue anyways''" for data
  proof
    assume "generate_substitutions_from_package env package os_name os_version ros_distro
      installation_prefix deb_inc peer_packages releaser_history fallback_resolver native
      = Inr data"
    from generate_substitutions_changelogs [OF this] c that show False
      by simp
  qed
  from f c g show ?thesis
    by blast
qed

theorem changelog_validation_gate_witness:
  "get_changelogs (example_env (Some newer_log) False) pkg_a None =
     Inr [(''1.3.0'', ''Tue, 02 Mar 2021 09:00:00 -0000'', ''  * Newer'', ''Alice'',
           ''alice@example.org'')]
   \<and> version pkg_a = ''1.2.0''
   \<and> parse_version_lt (example_env (Some newer_log) False) ''1.2.0'' ''1.3.0''
   \<and> changelog_substitutions (example_env (Some newer_log) False) pkg_a None =
       Inl (SystemExit (ExitMsg ''User quit.''))"
proof -
  note h = get_changelogs_newer_log [of False]
  note i = insert_current_version_newer_log [of False]
  have v: "version pkg_a = ''1.2.0''"
    by (simp add: pkg_a_def)
  have p: "parse_version_lt (example_env (Some newer_log) False) ''1.2.0'' ''1.3.0''"
    by (simp add: example_env_def version_lt_example_def)
  have b: "version pkg_a \<noteq> fst (''1.2.0'', ''Mon, 01 Mar 2021 12:00:00 -0000'',
         ''  * Autogenerated, no changelog for this version found in CHANGELOG.rst.'',
         ''Alice'', ''alice@example.org'')
     \<or> (\<exists>entry \<in> set ((''1.2.0'', ''Mon, 01 Mar 2021 12:00:00 -0000'',
         ''  * Autogenerated, no changelog for this version found in CHANGELOG.rst.'',
         ''Alice'', ''alice@example.org'')
        # [(''1.3.0'', ''Tue, 02 Mar 2021 09:00:00 -0000'', ''  * Newer'', ''Alice'',
            ''alice@example.org'')]).
          parse_version_lt (example_env (Some newer_log) False) (version pkg_a) (fst entry))"
    using p v by simp
  note t = changelog_validation_gate [where env = "example_env (Some newer_log) False"
      and package = pkg_a and releaser_history = None
      and history = "[(''1.3.0'', ''Tue, 02 Mar 2021 09:00:00 -0000'', ''  * Newer'', ''Alice'',
           ''alice@example.org'')]"
      and first = "(''1.2.0'', ''Mon, 01 Mar 2021 12:00:00 -0000'',
         ''  * Autogenerated, no changelog for this version found in CHANGELOG.rst.'',
         ''Alice'', ''alice@example.org'')"
      and others = "[(''1.3.0'', ''Tue, 02 Mar 2021 09:00:00 -0000'', ''  * Newer'', ''Alice'',
            ''alice@example.org'')]"
      and os_name = "''ubuntu''" and os_version = "''focal''" and ros_distro = "''noetic''"
      and installation_prefix = "''/opt''" and deb_inc = 0 and peer_packages = None
      and fallback_resolver = None and native = False, OF h i b]
  have n: "\<not> maybe_continue (example_env (Some newer_log) False) ''n'' ''Continue anyways''"
    by (simp add: example_env_def)
  from t n have c: "changelog_substitutions (example_env (Some newer_log) False) pkg_a None =
      Inl (SystemExit (ExitMsg ''User quit.''))"
    by simp
  show ?thesis
    by (rule conjI [OF h conjI [OF v conjI [OF p c]]])
qed

section \<open>The command: results\<close>

lemma template_step_example:
  "template_step example_cmd_env False False all_subs () = Inr ()"
  by (simp add: template_step_def example_cmd_env_def)

lemma find_packages_example:
  "find_packages example_cmd_env (py_or (package_path example_args) (getcwd example_cmd_env)) =
     workspace_pkgs"
  by (simp add: example_cmd_env_def example_args_def py_or_def)

lemma py_or_None: "py_or None d = d"
  by (simp add: py_or_def)

lemma example_settings:
  "generator example_cmd_env = example_env None False"
  "get_os_name_and_version example_cmd_env = (''ubuntu'', ''focal'')"
  "environ_ROS_DISTRO example_cmd_env = Some ''noetic''"
  "arg_os_name example_args = None"
  "arg_os_version example_args = None"
  "arg_ros_distro example_args = None"
  "arg_install_prefix example_args = None"
  "arg_native example_args = False"
  "arg_place_template_files example_args = False"
  "arg_process_template_files example_args = False"
  "length workspace_pkgs = 2"
  "workspace_pkgs \<noteq> []"
  by (simp_all add: example_cmd_env_def example_args_def workspace_pkgs_def)

lemma build_debian_pkg_example:
  "build_debian_pkg example_cmd_env (Some example_args) None () = Inr ()"
  by (simp add: build_debian_pkg_def Let_def find_packages_example example_settings py_or_None
      merge_packages_two_pkgs template_step_example)

text \<open>
  Claim C7, as stated, on the workspace \<^verbatim>\<open>/ws\<close> that holds the two packages: the command
  does not end with an error; it returns normally, so the process exits with status 0.
\<close>

theorem build_debian_pkg_multiple_packages_counterexample:
  "length (find_packages example_cmd_env ''/ws'') = 2
   \<and> build_debian_pkg example_cmd_env (Some example_args) None () = Inr ()"
  using build_debian_pkg_example
  by (simp add: example_cmd_env_def workspace_pkgs_def)

text \<open>
  Claim C7, amended.  When more than one package is found at the package path, the command
  does not stop on that account: it hands all the packages to \<open>merge_packages\<close> and goes
  on with the template step, and its outcome is theirs.  It ends with a non-zero exit code
  and the message \<^verbatim>\<open>"No packages found in path: '...'"\<close> when no package is found.
\<close>

theorem build_debian_pkg_package_count:
  assumes "find_packages cenv (py_or (package_path a) (getcwd cenv)) = pkgs_dict"
  shows "(length pkgs_dict = 0 \<longrightarrow>
            build_debian_pkg cenv (Some a) get_subs_fn fs =
              Inl (SystemExit (ExitMsg (''No packages found in path: '' @ [CHR 0x27]
                @ py_or (package_path a) (getcwd cenv) @ [CHR 0x27]))))
     \<and> (1 < length pkgs_dict \<longrightarrow>
            build_debian_pkg cenv (Some a) get_subs_fn fs =
              (case merge_packages pkgs_dict
                      (case get_subs_fn of None \<Rightarrow> get_subs (generator cenv) | Some f \<Rightarrow> f)
                      (py_or (arg_os_name a) (fst (get_os_name_and_version cenv)))
                      (py_or (arg_os_version a) (snd (get_os_name_and_version cenv)))
                      (py_or (arg_ros_distro a)
                         (case environ_ROS_DISTRO cenv of None \<Rightarrow> ''indigo'' | Some d \<Rightarrow> d))
                      (py_or (arg_install_prefix a) ''/opt'') (arg_native a) of
                 Inl e \<Rightarrow> Inl e
               | Inr all_subs \<Rightarrow>
                   (case template_step cenv (arg_place_template_files a)
                           (arg_process_template_files a) all_subs fs of
                      Inl e \<Rightarrow> Inl (on_exception e)
                    | Inr fs' \<Rightarrow> Inr fs')))"
  using assms by (auto simp: build_debian_pkg_def Let_def)

theorem build_debian_pkg_package_count_witness:
  "find_packages example_cmd_env (py_or (package_path example_args) (getcwd example_cmd_env)) =
     workspace_pkgs
   \<and> length workspace_pkgs = 2
   \<and> build_debian_pkg example_cmd_env (Some example_args) None () = Inr ()"
proof -
  note f = find_packages_example
  have l: "length workspace_pkgs = 2"
    by (simp add: example_settings)
  then have l1: "1 < length workspace_pkgs"
    by simp
  note t = build_debian_pkg_package_count [where cenv = example_cmd_env and a = example_args
      and pkgs_dict = workspace_pkgs and get_subs_fn = None and fs = "()", OF f]
  have m: "merge_packages workspace_pkgs (get_subs (generator example_cmd_env))
      (py_or (arg_os_name example_args) (fst (get_os_name_and_version example_cmd_env)))
      (py_or (arg_os_version example_args) (snd (get_os_name_and_version example_cmd_env)))
      (py_or (arg_ros_distro example_args)
         (case environ_ROS_DISTRO example_cmd_env of None \<Rightarrow> ''indigo'' | Some d \<Rightarrow> d))
      (py_or (arg_install_prefix example_args) ''/opt'') (arg_native example_args) =
      Inr two_pkgs_view"
    by (simp add: example_settings py_or_None merge_packages_two_pkgs)
  have s: "template_step example_cmd_env (arg_place_template_files example_args)
      (arg_process_template_files example_args) two_pkgs_view () = Inr ()"
    by (simp add: example_settings template_step_example)
  from t l1 have "build_debian_pkg example_cmd_env (Some example_args) None () =
      (case merge_packages workspace_pkgs (get_subs (generator example_cmd_env))
          (py_or (arg_os_name example_args) (fst (get_os_name_and_version example_cmd_env)))
          (py_or (arg_os_version example_args) (snd (get_os_name_and_version example_cmd_env)))
          (py_or (arg_ros_distro example_args)
             (case environ_ROS_DISTRO example_cmd_env of None \<Rightarrow> ''indigo'' | Some d \<Rightarrow> d))
          (py_or (arg_install_prefix example_args) ''/opt'') (arg_native example_args) of
         Inl e \<Rightarrow> Inl e
       | Inr all_subs \<Rightarrow>
           (case template_step example_cmd_env (arg_place_template_files example_args)
                   (arg_process_template_files example_args) all_subs () of
              Inl e \<Rightarrow> Inl (on_exception e)
            | Inr fs' \<Rightarrow> Inr fs'))"
    by simp
  then have b: "build_debian_pkg example_cmd_env (Some example_args) None () = Inr ()"
    unfolding m by (simp add: s)
  show ?thesis
    by (rule conjI [OF f conjI [OF l b]])
qed

end
